theory Spec2Isabelle
  imports Complex_Main "HOL-Library.Sublist"
begin

section \<open>JavaScript values\<close>

text \<open>
  The route handler of \<^verbatim>\<open>src/unnamed/part_008\<close> (the unified Next.js \<^verbatim>\<open>GET\<close>
  handler) works on values that come out of \<^verbatim>\<open>JSON.parse\<close> and on object literals.
  They are modelled by one datatype. A finite JavaScript number is a rational;
  \<open>JNaN\<close> is the number \<^verbatim>\<open>NaN\<close>, which \<^verbatim>\<open>parseInt\<close> can produce. \<^verbatim>\<open>undefined\<close> is the
  absence of a value (\<open>None\<close> of an option type). An object is an association
  list in insertion order.
\<close>

datatype json =
    JNull
  | JBool bool
  | JNum rat
  | JNaN
  | JStr string
  | JArr "json list"
  | JObj "(string \<times> json) list"

text \<open>\<^verbatim>\<open>!x\<close> is \<open>\<not> truthy x\<close>: null, false, 0, NaN and the empty string are falsy.\<close>

fun truthy :: "json \<Rightarrow> bool" where
  "truthy JNull = False"
| "truthy (JBool b) = b"
| "truthy (JNum r) = (r \<noteq> 0)"
| "truthy JNaN = False"
| "truthy (JStr s) = (s \<noteq> [])"
| "truthy (JArr xs) = True"
| "truthy (JObj kv) = True"

text \<open>Property access \<^verbatim>\<open>x.k\<close> on a value that is not null: \<open>None\<close> is \<^verbatim>\<open>undefined\<close>.\<close>

fun field :: "json \<Rightarrow> string \<Rightarrow> json option" where
  "field (JObj kv) k = map_of kv k"
| "field v k = None"

text \<open>Assignment \<^verbatim>\<open>o.k = v\<close> on an object literal: an existing key keeps its place.\<close>

fun obj_set :: "(string \<times> json) list \<Rightarrow> string \<Rightarrow> json \<Rightarrow> (string \<times> json) list" where
  "obj_set [] k v = [(k, v)]"
| "obj_set ((k', v') # kv) k v = (if k' = k then (k, v) # kv else (k', v') # obj_set kv k v)"

text \<open>\<^verbatim>\<open>Object.keys\<close> of a value.\<close>

fun object_keys :: "json \<Rightarrow> string list" where
  "object_keys (JObj kv) = map fst kv"
| "object_keys v = []"

section \<open>Strings and the two regular expressions\<close>

text \<open>
  A string is a list of code units below 256. \<open>is_space\<close> is the class \<^verbatim>\<open>\s\<close> of a
  JavaScript regular expression restricted to these code units, which is also what
  \<^verbatim>\<open>String.prototype.trim\<close> strips: TAB, LF, VT, FF, CR, SPACE and NBSP.
\<close>

definition is_space :: "char \<Rightarrow> bool" where
  "is_space c \<longleftrightarrow>
     c = CHR 0x09 \<or> c = CHR 0x0A \<or> c = CHR 0x0B \<or> c = CHR 0x0C \<or> c = CHR 0x0D
     \<or> c = CHR 0x20 \<or> c = CHR 0xA0"

definition trim :: "string \<Rightarrow> string" where
  "trim s = rev (dropWhile is_space (rev (dropWhile is_space s)))"

text \<open>
  \<open>split_at_first pat s\<close> finds the leftmost occurrence of \<open>pat\<close> in \<open>s\<close> and returns
  the text before it and the text after it.
\<close>

fun split_at_first :: "string \<Rightarrow> string \<Rightarrow> (string \<times> string) option" where
  "split_at_first pat [] = (if pat = [] then Some ([], []) else None)"
| "split_at_first pat (c # cs) =
     (if prefix pat (c # cs) then Some ([], drop (length pat) (c # cs))
      else map_option (\<lambda>(b, a). (c # b, a)) (split_at_first pat cs))"

text \<open>
  \<^verbatim>\<open>text.match(/{[\s\S]*}/)\<close>: the match starts at the leftmost \<^verbatim>\<open>{\<close> that has a
  \<^verbatim>\<open>}\<close> after it and, the star being greedy, ends at the last \<^verbatim>\<open>}\<close> of the text.
  The result is \<^verbatim>\<open>match[0]\<close>, or \<open>None\<close> for \<^verbatim>\<open>null\<close>.
\<close>

definition match_brace :: "string \<Rightarrow> string option" where
  "match_brace s =
     (let t = dropWhile (\<lambda>c. c \<noteq> CHR ''{'') s in
      if t = [] then None
      else if CHR ''}'' \<in> set (tl t)
        then Some (CHR ''{'' # rev (dropWhile (\<lambda>c. c \<noteq> CHR ''}'') (rev (tl t))))
        else None)"

text \<open>
  \<^verbatim>\<open>text.match(/```json\s*([\s\S]*?)\s*```/)\<close>: the match starts at the leftmost
  \<^verbatim>\<open>```json\<close>; the first \<^verbatim>\<open>\s*\<close> is greedy and takes all the white space that
  follows; the group is lazy, so it ends before the white space that precedes the next
  \<^verbatim>\<open>```\<close>. Without a closing \<^verbatim>\<open>```\<close> there is no match. The result is the pair
  \<^verbatim>\<open>(match[0], match[1])\<close>.
\<close>

definition fence_open :: string where
  "fence_open = [CHR 0x60, CHR 0x60, CHR 0x60, CHR ''j'', CHR ''s'', CHR ''o'', CHR ''n'']"

definition fence_close :: string where
  "fence_close = [CHR 0x60, CHR 0x60, CHR 0x60]"

definition match_fence :: "string \<Rightarrow> (string \<times> string) option" where
  "match_fence s =
     (case split_at_first fence_open s of
        None \<Rightarrow> None
      | Some (pre, after) \<Rightarrow>
          (let ws = takeWhile is_space after; a = dropWhile is_space after in
           case split_at_first fence_close a of
             None \<Rightarrow> None
           | Some (inner, rest) \<Rightarrow>
               Some (fence_open @ ws @ inner @ fence_close,
                     rev (dropWhile is_space (rev inner)))))"

section \<open>Built-in functions of the platform\<close>

subsection \<open>\<^verbatim>\<open>JSON.parse\<close>\<close>

text \<open>
  The handler calls \<^verbatim>\<open>JSON.parse\<close> on text that a language model wrote. In the
  handler's model the parser is a parameter (a field of the environment), so every
  general theorem holds for any parser. \<open>json_parse\<close> below is a reference parser for
  the JSON grammar (ECMA-404), used at concrete inputs. Its limits: a number is read
  as the exact rational it denotes (no rounding to a double), and an escape
  \<^verbatim>\<open>\uXXXX\<close> above \<^verbatim>\<open>00FF\<close> has no code unit in \<open>string\<close> and is refused.
  The nesting depth is bounded by fuel; \<open>json_parse\<close> gives more fuel than the text
  has characters.
\<close>

definition is_json_ws :: "char \<Rightarrow> bool" where
  "is_json_ws c \<longleftrightarrow> c = CHR 0x20 \<or> c = CHR 0x09 \<or> c = CHR 0x0A \<or> c = CHR 0x0D"

definition skip_ws :: "string \<Rightarrow> string" where
  "skip_ws s = dropWhile is_json_ws s"

definition is_digit :: "char \<Rightarrow> bool" where
  "is_digit c \<longleftrightarrow> c \<in> set ''0123456789''"

definition digit_val :: "char \<Rightarrow> nat" where
  "digit_val c = of_char c - 48"

definition nat_of_digits :: "string \<Rightarrow> nat" where
  "nat_of_digits ds = foldl (\<lambda>a d. 10 * a + digit_val d) 0 ds"

definition hex_val :: "char \<Rightarrow> nat option" where
  "hex_val c =
     (if is_digit c then Some (digit_val c)
      else if c \<in> set ''abcdef'' then Some (of_char c - 87)
      else if c \<in> set ''ABCDEF'' then Some (of_char c - 55)
      else None)"

definition unescape :: "char \<Rightarrow> char option" where
  "unescape e =
     (if e = CHR 0x22 then Some (CHR 0x22)
      else if e = CHR 0x5C then Some (CHR 0x5C)
      else if e = CHR ''/'' then Some (CHR ''/'')
      else if e = CHR ''b'' then Some (CHR 0x08)
      else if e = CHR ''f'' then Some (CHR 0x0C)
      else if e = CHR ''n'' then Some (CHR 0x0A)
      else if e = CHR ''r'' then Some (CHR 0x0D)
      else if e = CHR ''t'' then Some (CHR 0x09)
      else None)"

definition unicode_escape :: "string \<Rightarrow> char option" where
  "unicode_escape hs =
     (case map hex_val hs of
        [Some a, Some b, Some c, Some d] \<Rightarrow>
          (if a = 0 \<and> b = 0 then Some (char_of (16 * c + d)) else None)
      | _ \<Rightarrow> None)"

text \<open>The characters of a string literal after its opening quote, and the rest.\<close>

fun parse_string_body :: "string \<Rightarrow> (string \<times> string) option" where
  "parse_string_body [] = None"
| "parse_string_body (c # cs) =
     (if c = CHR 0x22 then Some ([], cs)
      else if c = CHR 0x5C then
        (case cs of
           [] \<Rightarrow> None
         | e # es \<Rightarrow>
             if e = CHR ''u'' then
               (case unicode_escape (take 4 es) of
                  None \<Rightarrow> None
                | Some ch \<Rightarrow> map_option (\<lambda>(s, r). (ch # s, r)) (parse_string_body (drop 4 es)))
             else
               (case unescape e of
                  None \<Rightarrow> None
                | Some ch \<Rightarrow> map_option (\<lambda>(s, r). (ch # s, r)) (parse_string_body es)))
      else if (of_char c :: nat) < 32 then None
      else map_option (\<lambda>(s, r). (c # s, r)) (parse_string_body cs))"

text \<open>
  A number: \<^verbatim>\<open>-? (0 | [1-9][0-9]*) (. [0-9]+)? ([eE] [+-]? [0-9]+)?\<close>.
\<close>

definition parse_number :: "string \<Rightarrow> (rat \<times> string) option" where
  "parse_number s =
     (let neg = (s \<noteq> [] \<and> hd s = CHR ''-'');
          s1 = (if neg then tl s else s);
          ip = (if s1 \<noteq> [] \<and> hd s1 = CHR ''0'' then ''0'' else takeWhile is_digit s1);
          s2 = drop (length ip) s1;
          has_frac = (s2 \<noteq> [] \<and> hd s2 = CHR ''.'');
          fp = (if has_frac then takeWhile is_digit (tl s2) else []);
          s3 = (if has_frac then drop (length fp) (tl s2) else s2);
          has_exp = (s3 \<noteq> [] \<and> (hd s3 = CHR ''e'' \<or> hd s3 = CHR ''E''));
          s4 = (if has_exp then tl s3 else s3);
          eneg = (has_exp \<and> s4 \<noteq> [] \<and> hd s4 = CHR ''-'');
          s5 = (if has_exp \<and> s4 \<noteq> [] \<and> (hd s4 = CHR ''-'' \<or> hd s4 = CHR ''+'') then tl s4 else s4);
          ep = (if has_exp then takeWhile is_digit s5 else []);
          s6 = drop (length ep) s5;
          mant = of_nat (nat_of_digits (ip @ fp)) / 10 ^ length fp;
          scaled = (if eneg then mant / 10 ^ nat_of_digits ep else mant * 10 ^ nat_of_digits ep)
      in if ip = [] \<or> (has_frac \<and> fp = []) \<or> (has_exp \<and> ep = []) then None
         else Some (if neg then - scaled else scaled, s6))"

text \<open>
  Values, array elements and object members. A repeated key keeps its first place
  and takes the last value, as in JavaScript.
\<close>

fun parse_value :: "nat \<Rightarrow> string \<Rightarrow> (json \<times> string) option"
  and parse_elements :: "nat \<Rightarrow> json list \<Rightarrow> string \<Rightarrow> (json list \<times> string) option"
  and parse_members ::
    "nat \<Rightarrow> (string \<times> json) list \<Rightarrow> string \<Rightarrow> ((string \<times> json) list \<times> string) option"
where
  "parse_value 0 s = None"
| "parse_value (Suc n) s =
     (case s of
        [] \<Rightarrow> None
      | c # cs \<Rightarrow>
          if c = CHR ''{'' then
            (let r = skip_ws cs in
             if r \<noteq> [] \<and> hd r = CHR ''}'' then Some (JObj [], tl r)
             else map_option (\<lambda>(kv, r'). (JObj kv, r')) (parse_members n [] r))
          else if c = CHR ''['' then
            (let r = skip_ws cs in
             if r \<noteq> [] \<and> hd r = CHR '']'' then Some (JArr [], tl r)
             else map_option (\<lambda>(xs, r'). (JArr xs, r')) (parse_elements n [] r))
          else if c = CHR 0x22 then
            map_option (\<lambda>(str, r). (JStr str, r)) (parse_string_body cs)
          else if prefix ''true'' s then Some (JBool True, drop 4 s)
          else if prefix ''false'' s then Some (JBool False, drop 5 s)
          else if prefix ''null'' s then Some (JNull, drop 4 s)
          else map_option (\<lambda>(x, r). (JNum x, r)) (parse_number s))"
| "parse_elements 0 acc s = None"
| "parse_elements (Suc n) acc s =
     (case parse_value n (skip_ws s) of
        None \<Rightarrow> None
      | Some (v, r) \<Rightarrow>
          (case skip_ws r of
             [] \<Rightarrow> None
           | c # r' \<Rightarrow>
               if c = CHR '','' then parse_elements n (acc @ [v]) r'
               else if c = CHR '']'' then Some (acc @ [v], r')
               else None))"
| "parse_members 0 acc s = None"
| "parse_members (Suc n) acc s =
     (case skip_ws s of
        [] \<Rightarrow> None
      | q # s1 \<Rightarrow>
          if q \<noteq> CHR 0x22 then None
          else
            (case parse_string_body s1 of
               None \<Rightarrow> None
             | Some (k, s2) \<Rightarrow>
                 (case skip_ws s2 of
                    [] \<Rightarrow> None
                  | colon # s3 \<Rightarrow>
                      if colon \<noteq> CHR '':'' then None
                      else
                        (case parse_value n (skip_ws s3) of
                           None \<Rightarrow> None
                         | Some (v, r) \<Rightarrow>
                             (case skip_ws r of
                                [] \<Rightarrow> None
                              | c # r' \<Rightarrow>
                                  if c = CHR '','' then parse_members n (obj_set acc k v) r'
                                  else if c = CHR ''}'' then Some (obj_set acc k v, r')
                                  else None)))))"

definition json_parse :: "string \<Rightarrow> json option" where
  "json_parse s =
     (case parse_value (Suc (length s)) (skip_ws s) of
        None \<Rightarrow> None
      | Some (v, r) \<Rightarrow> if skip_ws r = [] then Some v else None)"

subsection \<open>\<^verbatim>\<open>Number\<close> and \<^verbatim>\<open>parseInt\<close>\<close>

text \<open>
  \<^verbatim>\<open>isNaN(Number(s))\<close> for a string \<open>s\<close>: \<^verbatim>\<open>Number\<close> accepts, between white space,
  nothing at all (the value is 0), a signed decimal literal, \<^verbatim>\<open>Infinity\<close>, or an
  unsigned binary, octal or hexadecimal literal.
\<close>

definition exponent_ok :: "string \<Rightarrow> bool" where
  "exponent_ok r \<longleftrightarrow>
     r = [] \<or>
     ((hd r = CHR ''e'' \<or> hd r = CHR ''E'') \<and>
      (let t = tl r;
           d = (if t \<noteq> [] \<and> (hd t = CHR ''+'' \<or> hd t = CHR ''-'') then tl t else t)
       in d \<noteq> [] \<and> list_all is_digit d))"

definition unsigned_decimal_ok :: "string \<Rightarrow> bool" where
  "unsigned_decimal_ok u \<longleftrightarrow>
     u = ''Infinity'' \<or>
     (let ip = takeWhile is_digit u; r = dropWhile is_digit u in
      if r \<noteq> [] \<and> hd r = CHR ''.'' then
        (let fp = takeWhile is_digit (tl r); r2 = dropWhile is_digit (tl r)
         in (ip \<noteq> [] \<or> fp \<noteq> []) \<and> exponent_ok r2)
      else ip \<noteq> [] \<and> exponent_ok r)"

definition decimal_ok :: "string \<Rightarrow> bool" where
  "decimal_ok t \<longleftrightarrow>
     (if t \<noteq> [] \<and> (hd t = CHR ''+'' \<or> hd t = CHR ''-'') then unsigned_decimal_ok (tl t)
      else unsigned_decimal_ok t)"

definition radix_ok :: "string \<Rightarrow> bool" where
  "radix_ok t \<longleftrightarrow>
     (let ds = drop 2 t in
      ds \<noteq> [] \<and>
      ((take 2 t \<in> {''0x'', ''0X''} \<and> list_all (\<lambda>c. hex_val c \<noteq> None) ds) \<or>
       (take 2 t \<in> {''0o'', ''0O''} \<and> list_all (\<lambda>c. c \<in> set ''01234567'') ds) \<or>
       (take 2 t \<in> {''0b'', ''0B''} \<and> list_all (\<lambda>c. c \<in> set ''01'') ds)))"

definition Number_isNaN :: "string \<Rightarrow> bool" where
  "Number_isNaN s \<longleftrightarrow> (let t = trim s in \<not> (t = [] \<or> decimal_ok t \<or> radix_ok t))"

text \<open>
  \<^verbatim>\<open>parseInt(s, 10)\<close>: white space, a sign, then the longest run of digits; \<open>JNaN\<close>
  when there is no digit. What follows the digits is ignored.
\<close>

definition parseInt10 :: "string \<Rightarrow> json" where
  "parseInt10 s =
     (let t = dropWhile is_space s;
          neg = (t \<noteq> [] \<and> hd t = CHR ''-'');
          u = (if t \<noteq> [] \<and> (hd t = CHR ''+'' \<or> hd t = CHR ''-'') then tl t else t);
          ds = takeWhile is_digit u
      in if ds = [] then JNaN
         else JNum (if neg then - of_nat (nat_of_digits ds) else of_nat (nat_of_digits ds)))"

section \<open>The environment of a request\<close>

text \<open>
  Everything the handler reads from outside is a field of the environment: the four
  credentials of \<^verbatim>\<open>process.env\<close>, the providers reached through \<^verbatim>\<open>fetch\<close>, the
  parser, and the two functions of \<^verbatim>\<open>lib/recipe-api\<close> that call the recipe API.
  A handler calls each provider at most once, so \<open>fetch\<close> is a function of the
  provider: its value is what the provider answers to the prompt of this request.
  The prompt itself decides nothing in the handler and is not modelled.
\<close>

datatype provider = Claude | GPT | Gemini | Groq

text \<open>
  \<open>Fetch_rejects\<close>: \<^verbatim>\<open>fetch\<close> or \<^verbatim>\<open>response.json()\<close> throws. \<open>Response_not_ok\<close>: the
  status is not 2xx. \<open>Response_ok c\<close>: the status is 2xx and \<open>c\<close> is the generated
  text at the vendor's path (\<^verbatim>\<open>choices[0].message.content\<close> or
  \<^verbatim>\<open>candidates[0].content.parts[0].text\<close>), \<open>None\<close> when the optional chain gives
  \<^verbatim>\<open>undefined\<close>.
\<close>

datatype fetch_outcome = Fetch_rejects | Response_not_ok | Response_ok "string option"

text \<open>An awaited call: it throws an error with a message, or it returns.\<close>

datatype 'a promise = Rejects string | Resolves 'a

text \<open>The fields of a recipe that the handler reads after the prompt is built.\<close>

record recipe_info =
  healthScore :: "rat option"
  veryHealthy :: "bool option"
  glutenFree :: "bool option"
  dairyFree :: "bool option"
  readyInMinutes :: "rat option"
  instructions :: "string option"

record search_response =
  results :: "json list option"
  totalResults :: "rat option"
  offset :: "rat option"
  number :: "rat option"

record env =
  OPENROUTER_API_KEY :: "string option"
  GOOGLE_GEMINI_API_KEY :: "string option"
  GROQ_LLAMA_API_KEY :: "string option"
  HUGGING_FACE_INFERENCE_API_KEY :: "string option"
  fetch :: "provider \<Rightarrow> fetch_outcome"
  JSON_parse :: "string \<Rightarrow> json option"
  searchRecipes :: "string \<Rightarrow> nat \<Rightarrow> (string \<times> json) list option \<Rightarrow> search_response promise"
  getRecipeInformation :: "string \<Rightarrow> recipe_info option promise"

text \<open>A credential is used when it is a non-empty string.\<close>

definition configured :: "string option \<Rightarrow> bool" where
  "configured k \<longleftrightarrow> k \<noteq> None \<and> k \<noteq> Some []"

text \<open>What a request did outside the handler, in order.\<close>

datatype event = Provider_call provider | Recipe_fetch string | Recipe_search string

datatype response = Response (status: nat) (body: json)

text \<open>
  Modelled from the spec: \<^verbatim>\<open>jsonResponse\<close> of \<^verbatim>\<open>lib/api-utils-nextjs\<close> is not among
  the sources. It answers with the given JSON body and the given status, and with
  status 200 when none is given (the spec: on success "the caller receives a 200").
  The response headers are not modelled.
\<close>

definition jsonResponse :: "json \<Rightarrow> nat option \<Rightarrow> response" where
  "jsonResponse data st = Response (case st of None \<Rightarrow> 200 | Some n \<Rightarrow> n) data"

section \<open>Response extraction\<close>

text \<open>\<^verbatim>\<open>content || "{}"\<close>.\<close>

definition ai_content :: "string option \<Rightarrow> string" where
  "ai_content c = (case c of None \<Rightarrow> ''{}'' | Some s \<Rightarrow> if s = [] then ''{}'' else s)"

text \<open>
  The two OpenRouter branches of \<^verbatim>\<open>/api/ai/search\<close>:
  \<^verbatim>\<open>try { v = JSON.parse(aiContent) } catch { m = aiContent.match(/{[\s\S]*}/); if (m) v = JSON.parse(m[0]) }\<close>.
  \<open>None\<close>: the variable is not assigned (no match, or the second parse throws and the
  outer \<^verbatim>\<open>catch\<close> takes over).
\<close>

definition extract_direct_brace :: "(string \<Rightarrow> json option) \<Rightarrow> string \<Rightarrow> json option" where
  "extract_direct_brace parse aiContent =
     (case parse aiContent of
        Some v \<Rightarrow> Some v
      | None \<Rightarrow> (case match_brace aiContent of None \<Rightarrow> None | Some m \<Rightarrow> parse m))"

text \<open>
  Every other branch:
  \<^verbatim>\<open>m = aiContent.match(fence) || aiContent.match(brace); v = JSON.parse(m ? m[1] || m[0] : aiContent)\<close>
  inside a \<^verbatim>\<open>try\<close> whose \<^verbatim>\<open>catch\<close> is empty. \<open>parse_target\<close> is the one text that is
  parsed.
\<close>

definition parse_target :: "string \<Rightarrow> string" where
  "parse_target aiContent =
     (case match_fence aiContent of
        Some (m0, m1) \<Rightarrow> if m1 \<noteq> [] then m1 else m0
      | None \<Rightarrow> (case match_brace aiContent of Some m \<Rightarrow> m | None \<Rightarrow> aiContent))"

definition extract_fence_brace :: "(string \<Rightarrow> json option) \<Rightarrow> string \<Rightarrow> json option" where
  "extract_fence_brace parse aiContent = parse (parse_target aiContent)"

section \<open>The provider chains\<close>

text \<open>
  One attempt: \<^verbatim>\<open>try { r = await fetch(..); if (r.ok) { .. extraction .. } } catch { warn }\<close>.
  \<open>provider_result\<close> is the value the attempt assigns to the result variable, if any.
  The state of a chain is the result variable and the providers called so far.
\<close>

definition provider_result ::
    "env \<Rightarrow> ((string \<Rightarrow> json option) \<Rightarrow> string \<Rightarrow> json option) \<Rightarrow> provider \<Rightarrow> json option" where
  "provider_result env extract p =
     (case fetch env p of
        Fetch_rejects \<Rightarrow> None
      | Response_not_ok \<Rightarrow> None
      | Response_ok c \<Rightarrow> extract (JSON_parse env) (ai_content c))"

definition attempt ::
    "env \<Rightarrow> ((string \<Rightarrow> json option) \<Rightarrow> string \<Rightarrow> json option) \<Rightarrow> provider
      \<Rightarrow> json \<times> provider list \<Rightarrow> json \<times> provider list" where
  "attempt env extract p st =
     (case provider_result env extract p of
        None \<Rightarrow> (fst st, snd st @ [p])
      | Some v \<Rightarrow> (v, snd st @ [p]))"

text \<open>\<^verbatim>\<open>/api/ai/search\<close>: Claude and GPT under the OpenRouter key, Gemini, Groq.\<close>

definition search_chain :: "env \<Rightarrow> json \<times> provider list" where
  "search_chain env =
     (let st0 = (JNull, []);
          st1 = (if configured (OPENROUTER_API_KEY env) then
                   (let st = attempt env extract_direct_brace Claude st0 in
                    if \<not> truthy (fst st) \<and> configured (OPENROUTER_API_KEY env)
                    then attempt env extract_direct_brace GPT st else st)
                 else st0);
          st2 = (if \<not> truthy (fst st1) \<and> configured (GOOGLE_GEMINI_API_KEY env)
                 then attempt env extract_fence_brace Gemini st1 else st1);
          st3 = (if \<not> truthy (fst st2) \<and> configured (GROQ_LLAMA_API_KEY env)
                 then attempt env extract_fence_brace Groq st2 else st2)
      in st3)"

text \<open>\<^verbatim>\<open>/api/ai/recommendations\<close>: the same four providers, all with the fence and brace extraction.\<close>

definition recommendations_chain :: "env \<Rightarrow> json \<times> provider list" where
  "recommendations_chain env =
     (let st0 = (JNull, []);
          st1 = (if configured (OPENROUTER_API_KEY env) \<and> \<not> truthy (fst st0) then
                   (let st = attempt env extract_fence_brace Claude st0 in
                    if \<not> truthy (fst st) \<and> configured (OPENROUTER_API_KEY env)
                    then attempt env extract_fence_brace GPT st else st)
                 else st0);
          st2 = (if \<not> truthy (fst st1) \<and> configured (GOOGLE_GEMINI_API_KEY env)
                 then attempt env extract_fence_brace Gemini st1 else st1);
          st3 = (if \<not> truthy (fst st2) \<and> configured (GROQ_LLAMA_API_KEY env)
                 then attempt env extract_fence_brace Groq st2 else st2)
      in st3)"

text \<open>
  \<^verbatim>\<open>/api/ai/analysis\<close> and \<^verbatim>\<open>/api/ai/modifications\<close>: Claude, GPT, Gemini. The Hugging
  Face key is read by the credential check only; no request is sent with it.
\<close>

definition analysis_chain :: "env \<Rightarrow> json \<times> provider list" where
  "analysis_chain env =
     (let st0 = (JNull, []);
          st1 = (if configured (OPENROUTER_API_KEY env) \<and> \<not> truthy (fst st0) then
                   (let st = attempt env extract_fence_brace Claude st0 in
                    if \<not> truthy (fst st) \<and> configured (OPENROUTER_API_KEY env)
                    then attempt env extract_fence_brace GPT st else st)
                 else st0);
          st2 = (if \<not> truthy (fst st1) \<and> configured (GOOGLE_GEMINI_API_KEY env)
                 then attempt env extract_fence_brace Gemini st1 else st1)
      in st2)"

definition modifications_chain :: "env \<Rightarrow> json \<times> provider list" where
  "modifications_chain env =
     (let st0 = (JNull, []);
          st1 = (if configured (OPENROUTER_API_KEY env) \<and> \<not> truthy (fst st0) then
                   (let st = attempt env extract_fence_brace Claude st0 in
                    if \<not> truthy (fst st) \<and> configured (OPENROUTER_API_KEY env)
                    then attempt env extract_fence_brace GPT st else st)
                 else st0);
          st2 = (if \<not> truthy (fst st1) \<and> configured (GOOGLE_GEMINI_API_KEY env)
                 then attempt env extract_fence_brace Gemini st1 else st1)
      in st2)"

section \<open>The four handlers\<close>

text \<open>
  Each handler is the body of one \<^verbatim>\<open>if (path[0] === "ai" && path[1] === ...)\<close>
  block of \<^verbatim>\<open>GET\<close>; the CORS preflight check and the routing before the block are
  not modelled. \<open>searchParams\<close> is \<^verbatim>\<open>request.nextUrl.searchParams.get\<close>. The
  framework calls the \<^verbatim>\<open>GET\<close> export for GET and HEAD requests only, so the block
  of \<^verbatim>\<open>/api/ai/recommendations\<close> under \<^verbatim>\<open>request.method === "POST"\<close> never runs and is
  left out. A handler returns its response and the events of the request.
\<close>

subsection \<open>Search parameters passed on to the recipe search\<close>

text \<open>\<^verbatim>\<open>if (typeof src.k === "string") opts.k = src.k\<close>, and the same for a number.\<close>

definition copy_string_field ::
    "json \<Rightarrow> string \<Rightarrow> (string \<times> json) list \<Rightarrow> (string \<times> json) list" where
  "copy_string_field src k opts =
     (case field src k of Some (JStr x) \<Rightarrow> obj_set opts k (JStr x) | _ \<Rightarrow> opts)"

definition copy_number_field ::
    "json \<Rightarrow> string \<Rightarrow> (string \<times> json) list \<Rightarrow> (string \<times> json) list" where
  "copy_number_field src k opts =
     (case field src k of
        Some (JNum x) \<Rightarrow> obj_set opts k (JNum x)
      | Some JNaN \<Rightarrow> obj_set opts k JNaN
      | _ \<Rightarrow> opts)"

definition build_searchOptions :: "json \<Rightarrow> (string \<times> json) list \<Rightarrow> (string \<times> json) list" where
  "build_searchOptions src opts0 =
     (let o1 = copy_string_field src ''diet'' opts0;
          o2 = copy_string_field src ''cuisine'' o1;
          o3 = copy_number_field src ''maxReadyTime'' o2;
          o4 = copy_string_field src ''type'' o3;
          o5 = copy_string_field src ''excludeIngredients'' o4;
          o6 = copy_string_field src ''includeIngredients'' o5
      in o6)"

text \<open>\<^verbatim>\<open>(typeof src.searchTerm === "string" ? src.searchTerm : null) || dflt\<close>.\<close>

definition searchTerm_or :: "json \<Rightarrow> string \<Rightarrow> string" where
  "searchTerm_or src dflt =
     (case field src ''searchTerm'' of
        Some (JStr x) \<Rightarrow> if x \<noteq> [] then x else dflt
      | _ \<Rightarrow> dflt)"

text \<open>\<^verbatim>\<open>x || 0\<close> for a number that may be missing.\<close>

definition num_or_0 :: "rat option \<Rightarrow> json" where
  "num_or_0 x = JNum (case x of None \<Rightarrow> 0 | Some r \<Rightarrow> r)"

subsection \<open>\<^verbatim>\<open>/api/ai/search\<close>\<close>

definition no_keys_groq :: json where
  "no_keys_groq =
     JObj [(''error'', JStr ''No AI API keys configured (OpenRouter, Gemini, or Groq required)'')]"

text \<open>The structured data: the result of the chain, or the simple fallback.\<close>

definition search_fallback :: "string \<Rightarrow> json" where
  "search_fallback query = JObj [(''searchTerm'', JStr (trim query))]"

definition search_data :: "env \<Rightarrow> string \<Rightarrow> json \<times> provider list" where
  "search_data env query =
     (let st = search_chain env in
      (if \<not> truthy (fst st) then search_fallback query else fst st, snd st))"

definition ai_search :: "env \<Rightarrow> (string \<Rightarrow> string option) \<Rightarrow> response \<times> event list" where
  "ai_search env searchParams =
     (case searchParams ''query'' of
        None \<Rightarrow> (jsonResponse (JObj [(''error'', JStr ''Query must be at least 3 characters'')]) (Some 400), [])
      | Some query \<Rightarrow>
          if query = [] \<or> length (trim query) < 3 then
            (jsonResponse (JObj [(''error'', JStr ''Query must be at least 3 characters'')]) (Some 400), [])
          else if \<not> configured (OPENROUTER_API_KEY env) \<and> \<not> configured (GOOGLE_GEMINI_API_KEY env)
                  \<and> \<not> configured (GROQ_LLAMA_API_KEY env) then
            (jsonResponse no_keys_groq (Some 500), [])
          else
            (let st = search_data env query;
                 searchOptions = build_searchOptions (fst st) [];
                 term = searchTerm_or (fst st) (trim query);
                 events = map Provider_call (snd st) @ [Recipe_search term]
             in case searchRecipes env term 1 (if searchOptions \<noteq> [] then Some searchOptions else None) of
                  Rejects msg \<Rightarrow>
                    (jsonResponse (JObj [(''error'', JStr ''AI search failed''), (''message'', JStr msg)])
                       (Some 500), events)
                | Resolves r \<Rightarrow>
                    (jsonResponse
                       (JObj [(''results'', JArr (case results r of None \<Rightarrow> [] | Some xs \<Rightarrow> xs)),
                              (''totalResults'', num_or_0 (totalResults r)),
                              (''offset'', num_or_0 (offset r)),
                              (''number'', num_or_0 (number r)),
                              (''aiOptimized'', JBool True),
                              (''originalQuery'', JStr (trim query)),
                              (''searchParams'', fst st)])
                       None, events)))"

subsection \<open>\<^verbatim>\<open>/api/ai/recommendations\<close>\<close>

text \<open>\<^verbatim>\<open>x?.trim()\<close> is truthy.\<close>

definition trimmed :: "string option \<Rightarrow> string" where
  "trimmed x = (case x of None \<Rightarrow> [] | Some s \<Rightarrow> trim s)"

text \<open>\<^verbatim>\<open>if (x) o.k = f(x)\<close> for a query parameter \<open>x\<close>.\<close>

definition set_if_given ::
    "string option \<Rightarrow> string \<Rightarrow> (string \<Rightarrow> json) \<Rightarrow> (string \<times> json) list \<Rightarrow> (string \<times> json) list" where
  "set_if_given x k f kv =
     (case x of None \<Rightarrow> kv | Some s \<Rightarrow> if s = [] then kv else obj_set kv k (f s))"

text \<open>\<^verbatim>\<open>query.trim() || ingredients?.trim() || "recipes"\<close>.\<close>

definition default_term :: "string \<Rightarrow> string option \<Rightarrow> string" where
  "default_term query ingredients =
     (if trim query \<noteq> [] then trim query
      else if trimmed ingredients \<noteq> [] then trimmed ingredients
      else ''recipes'')"

definition recommendations_fallback :: "(string \<Rightarrow> string option) \<Rightarrow> json" where
  "recommendations_fallback searchParams =
     (let query = (case searchParams ''query'' of None \<Rightarrow> [] | Some q \<Rightarrow> q);
          d0 = [(''searchTerm'', JStr (default_term query (searchParams ''ingredients''))),
                (''number'', JNum 10)];
          d1 = set_if_given (searchParams ''diet'') ''diet'' JStr d0;
          d2 = set_if_given (searchParams ''cuisine'') ''cuisine'' JStr d1;
          d3 = set_if_given (searchParams ''maxTime'') ''maxReadyTime'' parseInt10 d2;
          d4 = set_if_given (searchParams ''ingredients'') ''includeIngredients'' JStr d3;
          d5 = set_if_given (searchParams ''excludeIngredients'') ''excludeIngredients'' JStr d4
      in JObj d5)"

definition recommendations_data :: "env \<Rightarrow> (string \<Rightarrow> string option) \<Rightarrow> json \<times> provider list" where
  "recommendations_data env searchParams =
     (let st = recommendations_chain env in
      (if \<not> truthy (fst st) then recommendations_fallback searchParams else fst st, snd st))"

text \<open>One line of the context sent to the providers and echoed in the response.\<close>

definition context_line :: "string \<Rightarrow> string \<Rightarrow> string \<Rightarrow> string" where
  "context_line lead x trail = (if x \<noteq> [] then lead @ x @ trail @ [CHR 0x0A] else [])"

definition recommendationContext :: "(string \<Rightarrow> string option) \<Rightarrow> string" where
  "recommendationContext searchParams =
     context_line (''User request: '' @ [CHR 0x22]) (trim (case searchParams ''query'' of None \<Rightarrow> [] | Some q \<Rightarrow> q)) [CHR 0x22]
     @ context_line ''Available ingredients: '' (trimmed (searchParams ''ingredients'')) []
     @ context_line ''Dietary preference: '' (trimmed (searchParams ''diet'')) []
     @ context_line ''Cuisine preference: '' (trimmed (searchParams ''cuisine'')) []
     @ context_line ''Maximum cooking time: '' (trimmed (searchParams ''maxTime'')) '' minutes''
     @ context_line ''Exclude ingredients: '' (trimmed (searchParams ''excludeIngredients'')) []"

definition recommendation_reason :: "string \<Rightarrow> string option \<Rightarrow> string" where
  "recommendation_reason query ingredients =
     (if trim query \<noteq> [] then ''Recommended based on: '' @ [CHR 0x22] @ trim query @ [CHR 0x22]
      else if trimmed ingredients \<noteq> [] then
        ''Recommended based on available ingredients: '' @ trimmed ingredients
      else ''Personalized recommendations for you'')"

text \<open>
  \<^verbatim>\<open>xs.slice(0, n)\<close>: \<open>n\<close> is truncated towards zero; a negative \<open>n\<close> counts from
  the end.
\<close>

definition slice0 :: "'a list \<Rightarrow> rat \<Rightarrow> 'a list" where
  "slice0 xs n =
     (let k = (if 0 \<le> n then \<lfloor>n\<rfloor> else \<lceil>n\<rceil>) in
      if k < 0 then take (nat (int (length xs) + k)) xs else take (nat k) xs)"

text \<open>\<^verbatim>\<open>(typeof d.number === "number" ? d.number : null) || 10\<close>.\<close>

definition number_or_10 :: "json \<Rightarrow> rat" where
  "number_or_10 d = (case field d ''number'' of Some (JNum n) \<Rightarrow> if n \<noteq> 0 then n else 10 | _ \<Rightarrow> 10)"

definition ai_recommendations :: "env \<Rightarrow> (string \<Rightarrow> string option) \<Rightarrow> response \<times> event list" where
  "ai_recommendations env searchParams =
     (let query = (case searchParams ''query'' of None \<Rightarrow> [] | Some q \<Rightarrow> q);
          ingredients = searchParams ''ingredients''
      in
      if trim query = [] \<and> trimmed ingredients = [] then
        (jsonResponse (JObj [(''error'', JStr ''Either query or ingredients parameter is required'')])
           (Some 400), [])
      else if \<not> configured (OPENROUTER_API_KEY env) \<and> \<not> configured (GOOGLE_GEMINI_API_KEY env)
              \<and> \<not> configured (GROQ_LLAMA_API_KEY env) then
        (jsonResponse no_keys_groq (Some 500), [])
      else
        (let st = recommendations_data env searchParams;
             searchOptions =
               build_searchOptions (fst st)
                 [(''fillIngredients'', JBool True), (''addRecipeInformation'', JBool True),
                  (''addRecipeNutrition'', JBool True)];
             n = number_or_10 (fst st);
             term = searchTerm_or (fst st) (default_term query ingredients);
             events = map Provider_call (snd st) @ [Recipe_search term]
         in case searchRecipes env term 1 (if searchOptions \<noteq> [] then Some searchOptions else None) of
              Rejects msg \<Rightarrow>
                (jsonResponse
                   (JObj [(''error'', JStr ''AI recommendations failed''), (''message'', JStr msg)])
                   (Some 500), events)
            | Resolves r \<Rightarrow>
                (jsonResponse
                   (JObj [(''recipes'', JArr (slice0 (case results r of None \<Rightarrow> [] | Some xs \<Rightarrow> xs) n)),
                          (''reason'', JStr (recommendation_reason query ingredients)),
                          (''context'', JStr (trim (recommendationContext searchParams)))])
                   None, events)))"

subsection \<open>\<^verbatim>\<open>/api/ai/analysis\<close>\<close>

definition no_keys_hugging_face :: json where
  "no_keys_hugging_face =
     JObj [(''error'', JStr ''No AI API keys configured (OpenRouter, Gemini, or Hugging Face required)'')]"

text \<open>\<^verbatim>\<open>!recipeId || isNaN(Number(recipeId))\<close>.\<close>

definition invalid_recipeId :: "string option \<Rightarrow> bool" where
  "invalid_recipeId recipeId \<longleftrightarrow>
     (case recipeId of None \<Rightarrow> True | Some s \<Rightarrow> s = [] \<or> Number_isNaN s)"

text \<open>
  The top-level keys of the JSON that the analysis prompt asks the providers for
  (the prompt's "Provide a comprehensive analysis in JSON format with these fields").
\<close>

definition analysis_schema_keys :: "string list" where
  "analysis_schema_keys =
     [''healthScore'', ''nutritionAnalysis'', ''ingredientSubstitutions'', ''allergens'',
      ''cookingDifficulty'', ''timeValidation'']"

text \<open>The simple fallback "based on recipe data".\<close>

definition fallback_allergens :: "recipe_info \<Rightarrow> json list" where
  "fallback_allergens recipeInfo =
     (let a0 = [];
          a1 = (if glutenFree recipeInfo \<noteq> Some True
                then a0 @ [JObj [(''allergen'', JStr ''gluten''), (''severity'', JStr ''medium'')]]
                else a0);
          a2 = (if dairyFree recipeInfo \<noteq> Some True
                then a1 @ [JObj [(''allergen'', JStr ''dairy''), (''severity'', JStr ''medium'')]]
                else a1)
      in a2)"

text \<open>\<^verbatim>\<open>recipeInfo.readyInMinutes && recipeInfo.readyInMinutes > n\<close>.\<close>

definition ready_over :: "recipe_info \<Rightarrow> rat \<Rightarrow> bool" where
  "ready_over recipeInfo n \<longleftrightarrow>
     (case readyInMinutes recipeInfo of None \<Rightarrow> False | Some m \<Rightarrow> m \<noteq> 0 \<and> m > n)"

definition analysis_fallback :: "recipe_info \<Rightarrow> json" where
  "analysis_fallback recipeInfo =
     JObj
       [(''healthScore'',
           JObj [(''score'',
                    JNum (case healthScore recipeInfo of
                            None \<Rightarrow> 50
                          | Some h \<Rightarrow> if h \<noteq> 0 then h else 50)),
                 (''explanation'', JStr ''Health score based on recipe nutritional data'')]),
        (''nutritionAnalysis'',
           JObj [(''summary'', JStr ''Nutritional analysis based on available recipe data''),
                 (''strengths'',
                    JArr (if veryHealthy recipeInfo = Some True
                          then [JStr ''Recipe is marked as very healthy''] else [])),
                 (''concerns'', JArr [])]),
        (''allergens'', JArr (fallback_allergens recipeInfo)),
        (''cookingDifficulty'',
           JObj [(''level'',
                    JStr (if ready_over recipeInfo 60 then ''advanced''
                          else if ready_over recipeInfo 30 then ''intermediate''
                          else ''beginner'')),
                 (''explanation'', JStr ''Difficulty estimated based on cooking time''),
                 (''tips'', JArr [])])]"

definition analysis_data :: "env \<Rightarrow> recipe_info \<Rightarrow> json \<times> provider list" where
  "analysis_data env recipeInfo =
     (let st = analysis_chain env in
      (if \<not> truthy (fst st) then analysis_fallback recipeInfo else fst st, snd st))"

definition ai_analysis :: "env \<Rightarrow> (string \<Rightarrow> string option) \<Rightarrow> response \<times> event list" where
  "ai_analysis env searchParams =
     (let recipeId = searchParams ''recipeId'' in
      if invalid_recipeId recipeId then
        (jsonResponse (JObj [(''error'', JStr ''Valid recipeId parameter is required'')]) (Some 400), [])
      else if \<not> configured (OPENROUTER_API_KEY env) \<and> \<not> configured (GOOGLE_GEMINI_API_KEY env)
              \<and> \<not> configured (HUGGING_FACE_INFERENCE_API_KEY env) then
        (jsonResponse no_keys_hugging_face (Some 500), [])
      else
        (let rid = (case recipeId of None \<Rightarrow> [] | Some s \<Rightarrow> s) in
         case getRecipeInformation env rid of
           Rejects msg \<Rightarrow>
             (jsonResponse (JObj [(''error'', JStr ''AI analysis failed''), (''message'', JStr msg)])
                (Some 500), [Recipe_fetch rid])
         | Resolves None \<Rightarrow>
             (jsonResponse (JObj [(''error'', JStr ''Recipe not found'')]) (Some 404),
              [Recipe_fetch rid])
         | Resolves (Some recipeInfo) \<Rightarrow>
             (let st = analysis_data env recipeInfo in
              (jsonResponse (fst st) None, Recipe_fetch rid # map Provider_call (snd st)))))"

subsection \<open>\<^verbatim>\<open>/api/ai/modifications\<close>\<close>

text \<open>The top-level keys that the two modification prompts ask for.\<close>

definition modification_schema_keys :: "string \<Rightarrow> string list" where
  "modification_schema_keys modificationType =
     (if modificationType = ''dietary''
      then [''modifiedIngredients'', ''modifiedInstructions'', ''explanation'']
      else [''simplifiedIngredients'', ''simplifiedInstructions'', ''tips''])"

text \<open>\<^verbatim>\<open>recipeInfo.instructions || ""\<close>.\<close>

definition instructions_or_empty :: "recipe_info \<Rightarrow> string" where
  "instructions_or_empty recipeInfo = (case instructions recipeInfo of None \<Rightarrow> [] | Some s \<Rightarrow> s)"

definition modifications_fallback :: "string \<Rightarrow> recipe_info \<Rightarrow> json" where
  "modifications_fallback modificationType recipeInfo =
     (if modificationType = ''dietary'' then
        JObj [(''modifiedIngredients'', JArr []),
              (''modifiedInstructions'', JStr (instructions_or_empty recipeInfo)),
              (''explanation'',
                 JStr ''Dietary conversion not available. Please check recipe ingredients manually.'')]
      else
        JObj [(''simplifiedIngredients'', JArr []),
              (''simplifiedInstructions'', JStr (instructions_or_empty recipeInfo)),
              (''tips'', JArr [JStr ''Follow the original recipe instructions carefully.''])])"

definition modifications_data :: "env \<Rightarrow> string \<Rightarrow> recipe_info \<Rightarrow> json \<times> provider list" where
  "modifications_data env modificationType recipeInfo =
     (let st = modifications_chain env in
      (if \<not> truthy (fst st) then modifications_fallback modificationType recipeInfo else fst st,
       snd st))"

definition ai_modifications :: "env \<Rightarrow> (string \<Rightarrow> string option) \<Rightarrow> response \<times> event list" where
  "ai_modifications env searchParams =
     (let recipeId = searchParams ''recipeId'';
          modificationType = searchParams ''type''
      in
      if invalid_recipeId recipeId then
        (jsonResponse (JObj [(''error'', JStr ''Valid recipeId parameter is required'')]) (Some 400), [])
      else if modificationType \<noteq> Some ''dietary'' \<and> modificationType \<noteq> Some ''simplify'' then
        (jsonResponse (JObj [(''error'', JStr ''Valid type parameter required (dietary or simplify)'')])
           (Some 400), [])
      else if \<not> configured (OPENROUTER_API_KEY env) \<and> \<not> configured (GOOGLE_GEMINI_API_KEY env)
              \<and> \<not> configured (HUGGING_FACE_INFERENCE_API_KEY env) then
        (jsonResponse no_keys_hugging_face (Some 500), [])
      else
        (let rid = (case recipeId of None \<Rightarrow> [] | Some s \<Rightarrow> s);
             mtype = (case modificationType of None \<Rightarrow> [] | Some s \<Rightarrow> s)
         in
         case getRecipeInformation env rid of
           Rejects msg \<Rightarrow>
             (jsonResponse (JObj [(''error'', JStr ''AI modification failed''), (''message'', JStr msg)])
                (Some 500), [Recipe_fetch rid])
         | Resolves None \<Rightarrow>
             (jsonResponse (JObj [(''error'', JStr ''Recipe not found'')]) (Some 404),
              [Recipe_fetch rid])
         | Resolves (Some recipeInfo) \<Rightarrow>
             (let st = modifications_data env mtype recipeInfo in
              (jsonResponse (fst st) None, Recipe_fetch rid # map Provider_call (snd st)))))"

section \<open>Notions used to state the properties\<close>

text \<open>Nested property access \<^verbatim>\<open>v.k1.k2\<close>.\<close>

fun get_path :: "json \<Rightarrow> string list \<Rightarrow> json option" where
  "get_path v [] = Some v"
| "get_path v (k # ks) = (case field v k of None \<Rightarrow> None | Some w \<Rightarrow> get_path w ks)"

text \<open>
  A provider fails when its attempt leaves the result variable falsy: the request
  throws, the status is not 2xx, nothing is extracted, or the extracted value is
  itself falsy (\<^verbatim>\<open>null\<close>, \<^verbatim>\<open>false\<close>, \<^verbatim>\<open>0\<close>, \<^verbatim>\<open>""\<close>).
\<close>

definition provider_fails ::
    "env \<Rightarrow> ((string \<Rightarrow> json option) \<Rightarrow> string \<Rightarrow> json option) \<Rightarrow> provider \<Rightarrow> bool" where
  "provider_fails env extract p \<longleftrightarrow>
     (case provider_result env extract p of None \<Rightarrow> True | Some v \<Rightarrow> \<not> truthy v)"

text \<open>Every configured provider of an endpoint fails.\<close>

definition search_exhausted :: "env \<Rightarrow> bool" where
  "search_exhausted env \<longleftrightarrow>
     (configured (OPENROUTER_API_KEY env) \<longrightarrow>
        provider_fails env extract_direct_brace Claude \<and> provider_fails env extract_direct_brace GPT) \<and>
     (configured (GOOGLE_GEMINI_API_KEY env) \<longrightarrow> provider_fails env extract_fence_brace Gemini) \<and>
     (configured (GROQ_LLAMA_API_KEY env) \<longrightarrow> provider_fails env extract_fence_brace Groq)"

definition recommendations_exhausted :: "env \<Rightarrow> bool" where
  "recommendations_exhausted env \<longleftrightarrow>
     (configured (OPENROUTER_API_KEY env) \<longrightarrow>
        provider_fails env extract_fence_brace Claude \<and> provider_fails env extract_fence_brace GPT) \<and>
     (configured (GOOGLE_GEMINI_API_KEY env) \<longrightarrow> provider_fails env extract_fence_brace Gemini) \<and>
     (configured (GROQ_LLAMA_API_KEY env) \<longrightarrow> provider_fails env extract_fence_brace Groq)"

text \<open>The analysis and the modification endpoint have the same three providers.\<close>

definition analysis_exhausted :: "env \<Rightarrow> bool" where
  "analysis_exhausted env \<longleftrightarrow>
     (configured (OPENROUTER_API_KEY env) \<longrightarrow>
        provider_fails env extract_fence_brace Claude \<and> provider_fails env extract_fence_brace GPT) \<and>
     (configured (GOOGLE_GEMINI_API_KEY env) \<longrightarrow> provider_fails env extract_fence_brace Gemini)"

subsection \<open>Endpoints\<close>

datatype endpoint = Search | Recommendations | Analysis | Modifications

text \<open>The extraction that an endpoint applies to the answer of a provider.\<close>

definition extractor_of ::
    "endpoint \<Rightarrow> provider \<Rightarrow> (string \<Rightarrow> json option) \<Rightarrow> string \<Rightarrow> json option" where
  "extractor_of e p =
     (if e = Search \<and> (p = Claude \<or> p = GPT) then extract_direct_brace else extract_fence_brace)"

text \<open>
  The structured data of a handler (the variable after the fallback step) and the
  providers it called, for a request and, where the endpoint fetches one, a recipe.
\<close>

fun data_of ::
    "endpoint \<Rightarrow> env \<Rightarrow> (string \<Rightarrow> string option) \<Rightarrow> recipe_info \<Rightarrow> json \<times> provider list" where
  "data_of Search env searchParams recipeInfo =
     search_data env (case searchParams ''query'' of None \<Rightarrow> [] | Some q \<Rightarrow> q)"
| "data_of Recommendations env searchParams recipeInfo = recommendations_data env searchParams"
| "data_of Analysis env searchParams recipeInfo = analysis_data env recipeInfo"
| "data_of Modifications env searchParams recipeInfo =
     modifications_data env (case searchParams ''type'' of None \<Rightarrow> [] | Some t \<Rightarrow> t) recipeInfo"

text \<open>The routes \<^verbatim>\<open>/api/ai/search\<close>, \<^verbatim>\<open>recommendations\<close>, \<^verbatim>\<open>analysis\<close>, \<^verbatim>\<open>modifications\<close>.\<close>

fun handler_of ::
    "endpoint \<Rightarrow> env \<Rightarrow> (string \<Rightarrow> string option) \<Rightarrow> response \<times> event list" where
  "handler_of Search = ai_search"
| "handler_of Recommendations = ai_recommendations"
| "handler_of Analysis = ai_analysis"
| "handler_of Modifications = ai_modifications"

text \<open>The fallback of an endpoint for a request and a recipe.\<close>

fun fallback_of :: "endpoint \<Rightarrow> (string \<Rightarrow> string option) \<Rightarrow> recipe_info \<Rightarrow> json" where
  "fallback_of Search searchParams recipeInfo =
     search_fallback (case searchParams ''query'' of None \<Rightarrow> [] | Some q \<Rightarrow> q)"
| "fallback_of Recommendations searchParams recipeInfo = recommendations_fallback searchParams"
| "fallback_of Analysis searchParams recipeInfo = analysis_fallback recipeInfo"
| "fallback_of Modifications searchParams recipeInfo =
     modifications_fallback (case searchParams ''type'' of None \<Rightarrow> [] | Some t \<Rightarrow> t) recipeInfo"

text \<open>Every configured provider of the endpoint fails.\<close>

fun exhausted :: "endpoint \<Rightarrow> env \<Rightarrow> bool" where
  "exhausted Search env = search_exhausted env"
| "exhausted Recommendations env = recommendations_exhausted env"
| "exhausted Analysis env = analysis_exhausted env"
| "exhausted Modifications env = analysis_exhausted env"

text \<open>The credential check of an endpoint finds no credential, and the error it answers.\<close>

definition no_credentials :: "endpoint \<Rightarrow> env \<Rightarrow> bool" where
  "no_credentials e env \<longleftrightarrow>
     \<not> configured (OPENROUTER_API_KEY env) \<and> \<not> configured (GOOGLE_GEMINI_API_KEY env) \<and>
     (if e = Search \<or> e = Recommendations then \<not> configured (GROQ_LLAMA_API_KEY env)
      else \<not> configured (HUGGING_FACE_INFERENCE_API_KEY env))"

definition no_keys_error :: "endpoint \<Rightarrow> json" where
  "no_keys_error e = (if e = Search \<or> e = Recommendations then no_keys_groq else no_keys_hugging_face)"

text \<open>The request passes the parameter checks of the endpoint.\<close>

fun valid_request :: "endpoint \<Rightarrow> (string \<Rightarrow> string option) \<Rightarrow> bool" where
  "valid_request Search searchParams =
     (case searchParams ''query'' of None \<Rightarrow> False | Some q \<Rightarrow> q \<noteq> [] \<and> 3 \<le> length (trim q))"
| "valid_request Recommendations searchParams =
     (trim (case searchParams ''query'' of None \<Rightarrow> [] | Some q \<Rightarrow> q) \<noteq> []
      \<or> trimmed (searchParams ''ingredients'') \<noteq> [])"
| "valid_request Analysis searchParams = (\<not> invalid_recipeId (searchParams ''recipeId''))"
| "valid_request Modifications searchParams =
     (\<not> invalid_recipeId (searchParams ''recipeId'') \<and>
      (searchParams ''type'' = Some ''dietary'' \<or> searchParams ''type'' = Some ''simplify''))"

text \<open>
  Two environments of one deployment: the same credentials and the same recipe API.
  The providers and the parser are free to differ.
\<close>

definition same_deployment :: "env \<Rightarrow> env \<Rightarrow> bool" where
  "same_deployment env1 env2 \<longleftrightarrow>
     OPENROUTER_API_KEY env1 = OPENROUTER_API_KEY env2 \<and>
     GOOGLE_GEMINI_API_KEY env1 = GOOGLE_GEMINI_API_KEY env2 \<and>
     GROQ_LLAMA_API_KEY env1 = GROQ_LLAMA_API_KEY env2 \<and>
     HUGGING_FACE_INFERENCE_API_KEY env1 = HUGGING_FACE_INFERENCE_API_KEY env2 \<and>
     searchRecipes env1 = searchRecipes env2 \<and>
     getRecipeInformation env1 = getRecipeInformation env2"

text \<open>
  The call of the handler to the recipe API succeeds: the recipe search that follows
  the fallback resolves, or the recipe fetch returns the given recipe.
\<close>

fun recipe_api_ok :: "endpoint \<Rightarrow> env \<Rightarrow> (string \<Rightarrow> string option) \<Rightarrow> recipe_info \<Rightarrow> bool" where
  "recipe_api_ok Search env searchParams recipeInfo =
     (case searchRecipes env (trim (case searchParams ''query'' of None \<Rightarrow> [] | Some q \<Rightarrow> q)) 1 None of
        Rejects msg \<Rightarrow> False | Resolves r \<Rightarrow> True)"
| "recipe_api_ok Recommendations env searchParams recipeInfo =
     (case searchRecipes env
             (default_term (case searchParams ''query'' of None \<Rightarrow> [] | Some q \<Rightarrow> q)
                (searchParams ''ingredients'')) 1
             (Some (build_searchOptions (recommendations_fallback searchParams)
                      [(''fillIngredients'', JBool True), (''addRecipeInformation'', JBool True),
                       (''addRecipeNutrition'', JBool True)])) of
        Rejects msg \<Rightarrow> False | Resolves r \<Rightarrow> True)"
| "recipe_api_ok Analysis env searchParams recipeInfo =
     (getRecipeInformation env (case searchParams ''recipeId'' of None \<Rightarrow> [] | Some s \<Rightarrow> s) =
        Resolves (Some recipeInfo))"
| "recipe_api_ok Modifications env searchParams recipeInfo =
     (getRecipeInformation env (case searchParams ''recipeId'' of None \<Rightarrow> [] | Some s \<Rightarrow> s) =
        Resolves (Some recipeInfo))"

subsection \<open>The chains as one loop\<close>

text \<open>
  The providers of an endpoint in the order of its chain, the credential that guards a
  provider, and the providers that come before a provider in the chain.
\<close>

definition chain_providers :: "endpoint \<Rightarrow> provider list" where
  "chain_providers e =
     (if e = Search \<or> e = Recommendations then [Claude, GPT, Gemini, Groq] else [Claude, GPT, Gemini])"

definition credential_of :: "provider \<Rightarrow> env \<Rightarrow> string option" where
  "credential_of p env =
     (case p of Claude \<Rightarrow> OPENROUTER_API_KEY env | GPT \<Rightarrow> OPENROUTER_API_KEY env
      | Gemini \<Rightarrow> GOOGLE_GEMINI_API_KEY env | Groq \<Rightarrow> GROQ_LLAMA_API_KEY env)"

definition predecessors :: "endpoint \<Rightarrow> provider \<Rightarrow> provider list" where
  "predecessors e p = takeWhile (\<lambda>q. q \<noteq> p) (chain_providers e)"

text \<open>The provider answers with a 2xx status.\<close>

definition answers_2xx :: "env \<Rightarrow> provider \<Rightarrow> bool" where
  "answers_2xx env p \<longleftrightarrow> (case fetch env p of Response_ok c \<Rightarrow> True | _ \<Rightarrow> False)"

text \<open>The chain of an endpoint.\<close>

definition chain_of :: "endpoint \<Rightarrow> env \<Rightarrow> json \<times> provider list" where
  "chain_of e env =
     (case e of Search \<Rightarrow> search_chain env | Recommendations \<Rightarrow> recommendations_chain env
      | Analysis \<Rightarrow> analysis_chain env | Modifications \<Rightarrow> modifications_chain env)"

text \<open>
  One step of a chain, \<^verbatim>\<open>if (!data && key) { attempt }\<close>; each chain is shown below to
  be the iteration of this step over its providers.
\<close>

definition guarded :: "env \<Rightarrow> endpoint \<Rightarrow> json \<times> provider list \<Rightarrow> provider \<Rightarrow> json \<times> provider list" where
  "guarded env e st p =
     (if \<not> truthy (fst st) \<and> configured (credential_of p env)
      then attempt env (extractor_of e p) p st else st)"

subsection \<open>The extraction in the words of the specification\<close>

text \<open>
  "1. Attempt a direct parse of the full text as JSON. 2. On failure, search for a
  fenced block matching a json code fence pattern and parse its interior. 3. On
  failure, search for the first \<^verbatim>\<open>{...}\<close> span via a greedy brace regex and parse
  that." This definition follows the specification, not the source; the handler's
  own extractions are \<open>extract_direct_brace\<close> and \<open>extract_fence_brace\<close>.
\<close>

definition spec_extract :: "(string \<Rightarrow> json option) \<Rightarrow> string \<Rightarrow> json option" where
  "spec_extract parse aiContent =
     (case parse aiContent of
        Some v \<Rightarrow> Some v
      | None \<Rightarrow>
          (case (case match_fence aiContent of None \<Rightarrow> None | Some (m0, m1) \<Rightarrow> parse m1) of
             Some v \<Rightarrow> Some v
           | None \<Rightarrow> (case match_brace aiContent of None \<Rightarrow> None | Some m \<Rightarrow> parse m)))"

subsection \<open>Example data\<close>

definition example_recipe :: recipe_info where
  "example_recipe =
     \<lparr>healthScore = Some 0, veryHealthy = Some False, glutenFree = Some False,
      dairyFree = Some False, readyInMinutes = Some 75, instructions = Some ''Boil the pasta.''\<rparr>"

definition empty_search_response :: search_response where
  "empty_search_response =
     \<lparr>results = Some [], totalResults = Some 0, offset = Some 0, number = Some 0\<rparr>"

text \<open>
  Two credentials are configured and every provider fails in its own way: a status
  that is not 2xx, a network error, and a 2xx answer without JSON.
\<close>

definition failing_env :: env where
  "failing_env =
     \<lparr>OPENROUTER_API_KEY = Some ''sk-or-1'', GOOGLE_GEMINI_API_KEY = Some ''g-1'',
      GROQ_LLAMA_API_KEY = None, HUGGING_FACE_INFERENCE_API_KEY = None,
      fetch = (\<lambda>p. case p of Claude \<Rightarrow> Response_not_ok | GPT \<Rightarrow> Fetch_rejects
                 | Gemini \<Rightarrow> Response_ok (Some ''Sorry, I cannot help with that.'')
                 | Groq \<Rightarrow> Response_not_ok),
      JSON_parse = json_parse,
      searchRecipes = (\<lambda>term page opts. Resolves empty_search_response),
      getRecipeInformation = (\<lambda>rid. Resolves (Some example_recipe))\<rparr>"

definition analysis_request :: "string \<Rightarrow> string option" where
  "analysis_request = (\<lambda>k. if k = ''recipeId'' then Some ''716429'' else None)"

text \<open>
  Claude answers with a status that is not 2xx, GPT with prose around a fenced JSON
  object, and Gemini would answer with another object.
\<close>

definition gpt_answer :: string where
  \<open>gpt_answer =
     ''Here you go: '' @ fence_open @ [CHR 0x0A]
       @ ''{"searchTerm": "vegan curry", "diet": "vegan"}'' @ [CHR 0x0A] @ fence_close\<close>

definition gpt_answers_env :: env where
  \<open>gpt_answers_env =
     \<lparr>OPENROUTER_API_KEY = Some ''sk-or-1'', GOOGLE_GEMINI_API_KEY = Some ''g-1'',
      GROQ_LLAMA_API_KEY = Some ''gsk-1'', HUGGING_FACE_INFERENCE_API_KEY = None,
      fetch = (\<lambda>p. case p of Claude \<Rightarrow> Response_not_ok | GPT \<Rightarrow> Response_ok (Some gpt_answer)
                 | Gemini \<Rightarrow> Response_ok (Some ''{"searchTerm": "something else"}'')
                 | Groq \<Rightarrow> Fetch_rejects),
      JSON_parse = json_parse,
      searchRecipes = (\<lambda>term page opts. Resolves empty_search_response),
      getRecipeInformation = (\<lambda>rid. Resolves (Some example_recipe))\<rparr>\<close>

definition quick_vegan_request :: "string \<Rightarrow> string option" where
  "quick_vegan_request = (\<lambda>k. if k = ''query'' then Some ''quick vegan dinner'' else None)"

text \<open>No credential at all.\<close>

definition no_keys_env :: env where
  "no_keys_env =
     \<lparr>OPENROUTER_API_KEY = None, GOOGLE_GEMINI_API_KEY = None,
      GROQ_LLAMA_API_KEY = None, HUGGING_FACE_INFERENCE_API_KEY = None,
      fetch = (\<lambda>p. Fetch_rejects),
      JSON_parse = json_parse,
      searchRecipes = (\<lambda>term page opts. Resolves empty_search_response),
      getRecipeInformation = (\<lambda>rid. Resolves (Some example_recipe))\<rparr>"

text \<open>
  The credentials of \<open>failing_env\<close>, with other failures: a 2xx answer \<^verbatim>\<open>null\<close>, a 2xx
  answer whose braces hold no JSON, and a network error.
\<close>

definition failing_env2 :: env where
  "failing_env2 =
     \<lparr>OPENROUTER_API_KEY = Some ''sk-or-1'', GOOGLE_GEMINI_API_KEY = Some ''g-1'',
      GROQ_LLAMA_API_KEY = None, HUGGING_FACE_INFERENCE_API_KEY = None,
      fetch = (\<lambda>p. case p of Claude \<Rightarrow> Response_ok (Some ''null'')
                 | GPT \<Rightarrow> Response_ok (Some ''{ not json }'')
                 | Gemini \<Rightarrow> Fetch_rejects
                 | Groq \<Rightarrow> Response_not_ok),
      JSON_parse = json_parse,
      searchRecipes = (\<lambda>term page opts. Resolves empty_search_response),
      getRecipeInformation = (\<lambda>rid. Resolves (Some example_recipe))\<rparr>"

definition pasta_request :: "string \<Rightarrow> string option" where
  "pasta_request = (\<lambda>k. if k = ''query'' then Some ''  creamy pasta '' else None)"

definition short_request :: "string \<Rightarrow> string option" where
  "short_request = (\<lambda>k. if k = ''query'' then Some ''ab'' else None)"

text \<open>The providers fail as in \<open>failing_env\<close> and the recipe search throws.\<close>

definition search_down_env :: env where
  "search_down_env =
     failing_env\<lparr>searchRecipes := (\<lambda>term page opts. Rejects ''Request failed with status code 402'')\<rparr>"

definition modification_request :: "string \<Rightarrow> string option" where
  "modification_request =
     (\<lambda>k. if k = ''recipeId'' then Some ''716429'' else if k = ''type'' then Some ''dietary'' else None)"

text \<open>
  Two answers of a provider: a JSON object one of whose strings holds a fenced block,
  and a fenced JSON object followed by prose with braces.
\<close>

definition fence_inside_object :: string where
  \<open>fence_inside_object = ''{"note": "```json x ```", "searchTerm": "soup"}''\<close>

definition fence_then_braces :: string where
  \<open>fence_then_braces = ''```json {"a": 1} ``` Use {curly} braces.''\<close>

text \<open>Every provider answers 2xx without generated text, so that \<^verbatim>\<open>"{}"\<close> is parsed.\<close>

definition empty_answer_env :: env where
  "empty_answer_env = failing_env\<lparr>fetch := (\<lambda>p. Response_ok None)\<rparr>"

text \<open>
  Claude answers 2xx with a JSON array, or with a number, and every other provider
  would answer with an object.
\<close>

definition array_answer_env :: env where
  \<open>array_answer_env =
     failing_env\<lparr>fetch := (\<lambda>p. case p of Claude \<Rightarrow> Response_ok (Some ''[1, 2]'')
                             | _ \<Rightarrow> Response_ok (Some ''{"searchTerm": "soup"}''))\<rparr>\<close>

definition number_answer_env :: env where
  \<open>number_answer_env =
     failing_env\<lparr>fetch := (\<lambda>p. case p of Claude \<Rightarrow> Response_ok (Some ''7'')
                             | _ \<Rightarrow> Response_ok (Some ''{"searchTerm": "soup"}''))\<rparr>\<close>

text \<open>
  Only Gemini answers 2xx: a fenced block that is not JSON, followed by a JSON object.
\<close>

definition fenced_garbage_env :: env where
  \<open>fenced_garbage_env =
     failing_env\<lparr>fetch := (\<lambda>p. case p of Gemini \<Rightarrow> Response_ok (Some ''```json oops ``` {"a": 1}'')
                             | _ \<Rightarrow> Response_not_ok)\<rparr>\<close>

section \<open>Facts about the chains\<close>

lemma attempt_fst:
  "fst (attempt env ex p st) = (case provider_result env ex p of None \<Rightarrow> fst st | Some v \<Rightarrow> v)"
  by (simp add: attempt_def split: option.split)

lemma attempt_snd: "snd (attempt env ex p st) = snd st @ [p]"
  by (simp add: attempt_def split: option.split)

lemma attempt_fails:
  "provider_fails env ex p \<Longrightarrow> \<not> truthy (fst st) \<Longrightarrow> \<not> truthy (fst (attempt env ex p st))"
  by (simp add: attempt_fst provider_fails_def split: option.splits)

lemma search_chain_exhausted: "search_exhausted env \<Longrightarrow> \<not> truthy (fst (search_chain env))"
  by (simp add: search_chain_def search_exhausted_def Let_def attempt_fails)

lemma recommendations_chain_exhausted:
  "recommendations_exhausted env \<Longrightarrow> \<not> truthy (fst (recommendations_chain env))"
  by (simp add: recommendations_chain_def recommendations_exhausted_def Let_def attempt_fails)

lemma analysis_chain_exhausted: "analysis_exhausted env \<Longrightarrow> \<not> truthy (fst (analysis_chain env))"
  by (simp add: analysis_chain_def analysis_exhausted_def Let_def attempt_fails)

lemma modifications_chain_exhausted:
  "analysis_exhausted env \<Longrightarrow> \<not> truthy (fst (modifications_chain env))"
  by (simp add: modifications_chain_def analysis_exhausted_def Let_def attempt_fails)

text \<open>A recipe is fetched only for a valid request with a credential.\<close>

lemma ai_analysis_fetched:
  assumes "Recipe_fetch rid \<in> set (snd (ai_analysis env searchParams))"
  shows "searchParams ''recipeId'' = Some rid"
    and "\<not> invalid_recipeId (searchParams ''recipeId'')"
    and "configured (OPENROUTER_API_KEY env) \<or> configured (GOOGLE_GEMINI_API_KEY env)
          \<or> configured (HUGGING_FACE_INFERENCE_API_KEY env)"
  using assms
  by (auto simp: ai_analysis_def Let_def invalid_recipeId_def
      split: if_splits option.splits promise.splits)

lemma ai_analysis_fallback:
  assumes "searchParams ''recipeId'' = Some rid"
    and "\<not> invalid_recipeId (searchParams ''recipeId'')"
    and "configured (OPENROUTER_API_KEY env) \<or> configured (GOOGLE_GEMINI_API_KEY env)
          \<or> configured (HUGGING_FACE_INFERENCE_API_KEY env)"
    and "getRecipeInformation env rid = Resolves (Some recipeInfo)"
    and "analysis_exhausted env"
  shows "fst (ai_analysis env searchParams) = Response 200 (analysis_fallback recipeInfo)"
  using assms analysis_chain_exhausted [of env]
  by (auto simp: ai_analysis_def Let_def analysis_data_def jsonResponse_def)

lemma map_of_obj_set: "map_of (obj_set kv k v) k' = (if k' = k then Some v else map_of kv k')"
  by (induction kv) auto

lemma obj_set_not_Nil: "obj_set kv k v \<noteq> []"
  by (cases kv) (auto split: if_splits)

text \<open>The response depends on the providers only through the structured data.\<close>

lemma fst_ai_search_cong:
  assumes "same_deployment env1 env2"
    and "fst (search_data env1 (case searchParams ''query'' of None \<Rightarrow> [] | Some q \<Rightarrow> q)) =
         fst (search_data env2 (case searchParams ''query'' of None \<Rightarrow> [] | Some q \<Rightarrow> q))"
  shows "fst (ai_search env1 searchParams) = fst (ai_search env2 searchParams)"
proof (cases "searchParams ''query''")
  case None
  then show ?thesis by (simp add: ai_search_def)
next
  case (Some q)
  with assms show ?thesis
    by (simp add: ai_search_def Let_def same_deployment_def split: promise.split)
qed

lemma fst_ai_recommendations_cong:
  assumes "same_deployment env1 env2"
    and "fst (recommendations_data env1 searchParams) = fst (recommendations_data env2 searchParams)"
  shows "fst (ai_recommendations env1 searchParams) = fst (ai_recommendations env2 searchParams)"
  using assms
  by (simp add: ai_recommendations_def Let_def same_deployment_def split: promise.split)

lemma fst_ai_analysis_cong:
  assumes "same_deployment env1 env2"
    and "\<And>r. fst (analysis_data env1 r) = fst (analysis_data env2 r)"
  shows "fst (ai_analysis env1 searchParams) = fst (ai_analysis env2 searchParams)"
  using assms
  by (simp add: ai_analysis_def Let_def same_deployment_def split: promise.split option.split)

lemma fst_ai_modifications_cong:
  assumes "same_deployment env1 env2"
    and "\<And>t r. fst (modifications_data env1 t r) = fst (modifications_data env2 t r)"
  shows "fst (ai_modifications env1 searchParams) = fst (ai_modifications env2 searchParams)"
  using assms
  by (simp add: ai_modifications_def Let_def same_deployment_def split: promise.split option.split)

text \<open>When every configured provider fails, the structured data is the fallback.\<close>

lemma search_data_exhausted:
  "search_exhausted env \<Longrightarrow> fst (search_data env q) = search_fallback q"
  by (simp add: search_data_def Let_def search_chain_exhausted)

lemma recommendations_data_exhausted:
  "recommendations_exhausted env \<Longrightarrow>
     fst (recommendations_data env searchParams) = recommendations_fallback searchParams"
  by (simp add: recommendations_data_def Let_def recommendations_chain_exhausted)

lemma analysis_data_exhausted:
  "analysis_exhausted env \<Longrightarrow> fst (analysis_data env r) = analysis_fallback r"
  by (simp add: analysis_data_def Let_def analysis_chain_exhausted)

lemma modifications_data_exhausted:
  "analysis_exhausted env \<Longrightarrow> fst (modifications_data env t r) = modifications_fallback t r"
  by (simp add: modifications_data_def Let_def modifications_chain_exhausted)

text \<open>The search handler after its two checks, and what a 200 of it looks like.\<close>

lemma ai_search_valid:
  assumes "searchParams ''query'' = Some q"
    and "q \<noteq> []" and "\<not> length (trim q) < 3"
    and "configured (OPENROUTER_API_KEY env) \<or> configured (GOOGLE_GEMINI_API_KEY env)
          \<or> configured (GROQ_LLAMA_API_KEY env)"
  shows "fst (ai_search env searchParams) =
     (case searchRecipes env (searchTerm_or (fst (search_data env q)) (trim q)) 1
             (if build_searchOptions (fst (search_data env q)) [] \<noteq> []
              then Some (build_searchOptions (fst (search_data env q)) []) else None) of
        Rejects msg \<Rightarrow> Response 500 (JObj [(''error'', JStr ''AI search failed''), (''message'', JStr msg)])
      | Resolves r \<Rightarrow>
          Response 200
            (JObj [(''results'', JArr (case results r of None \<Rightarrow> [] | Some xs \<Rightarrow> xs)),
                   (''totalResults'', num_or_0 (totalResults r)),
                   (''offset'', num_or_0 (offset r)),
                   (''number'', num_or_0 (number r)),
                   (''aiOptimized'', JBool True),
                   (''originalQuery'', JStr (trim q)),
                   (''searchParams'', fst (search_data env q))]))"
  using assms
  by (auto simp: ai_search_def Let_def jsonResponse_def split: promise.splits)

lemma ai_search_200_valid:
  assumes "status (fst (ai_search env searchParams)) = 200"
  obtains q where "searchParams ''query'' = Some q" and "q \<noteq> []" and "\<not> length (trim q) < 3"
    and "configured (OPENROUTER_API_KEY env) \<or> configured (GOOGLE_GEMINI_API_KEY env)
          \<or> configured (GROQ_LLAMA_API_KEY env)"
proof (cases "searchParams ''query''")
  case None
  with assms show ?thesis
    by (simp add: ai_search_def jsonResponse_def)
next
  case (Some q)
  with assms have "q \<noteq> []" and "\<not> length (trim q) < 3"
    and "configured (OPENROUTER_API_KEY env) \<or> configured (GOOGLE_GEMINI_API_KEY env)
          \<or> configured (GROQ_LLAMA_API_KEY env)"
    by (auto simp: ai_search_def jsonResponse_def split: if_splits)
  with Some that show ?thesis
    by blast
qed

lemma ai_search_200_body:
  assumes "status (fst (ai_search env searchParams)) = 200"
  obtains q and r :: search_response where "searchParams ''query'' = Some q"
    and "fst (ai_search env searchParams) =
          Response 200
            (JObj [(''results'', JArr (case results r of None \<Rightarrow> [] | Some xs \<Rightarrow> xs)),
                   (''totalResults'', num_or_0 (totalResults r)),
                   (''offset'', num_or_0 (offset r)),
                   (''number'', num_or_0 (number r)),
                   (''aiOptimized'', JBool True),
                   (''originalQuery'', JStr (trim q)),
                   (''searchParams'', fst (search_data env q))])"
proof -
  from assms obtain q where q: "searchParams ''query'' = Some q"
    and v: "q \<noteq> []" "\<not> length (trim q) < 3"
    and k: "configured (OPENROUTER_API_KEY env) \<or> configured (GOOGLE_GEMINI_API_KEY env)
          \<or> configured (GROQ_LLAMA_API_KEY env)"
    by (rule ai_search_200_valid)
  let ?call = "searchRecipes env (searchTerm_or (fst (search_data env q)) (trim q)) 1
             (if build_searchOptions (fst (search_data env q)) [] \<noteq> []
              then Some (build_searchOptions (fst (search_data env q)) []) else None)"
  note r = ai_search_valid [where searchParams = searchParams and q = q and env = env, OF q v k]
  show thesis
  proof (cases ?call)
    case (Rejects msg)
    with r assms show thesis
      by simp
  next
    case (Resolves res)
    have "fst (ai_search env searchParams) =
          Response 200
            (JObj [(''results'', JArr (case results res of None \<Rightarrow> [] | Some xs \<Rightarrow> xs)),
                   (''totalResults'', num_or_0 (totalResults res)),
                   (''offset'', num_or_0 (offset res)),
                   (''number'', num_or_0 (number res)),
                   (''aiOptimized'', JBool True),
                   (''originalQuery'', JStr (trim q)),
                   (''searchParams'', fst (search_data env q))])"
      unfolding r Resolves by simp
    with q show thesis
      by (rule that)
  qed
qed

text \<open>The responses when every configured provider fails.\<close>

lemma build_searchOptions_search_fallback: "build_searchOptions (search_fallback q) [] = []"
  by (simp add: build_searchOptions_def search_fallback_def copy_string_field_def
      copy_number_field_def)

lemma searchTerm_or_search_fallback: "searchTerm_or (search_fallback q) (trim q) = trim q"
  by (simp add: searchTerm_or_def search_fallback_def)

lemma ai_search_fallback:
  assumes "valid_request Search searchParams"
    and "\<not> no_credentials Search env"
    and "search_exhausted env"
    and "recipe_api_ok Search env searchParams recipeInfo"
  shows "status (fst (ai_search env searchParams)) = 200 \<and>
         field (body (fst (ai_search env searchParams))) ''searchParams'' =
           Some (fallback_of Search searchParams recipeInfo)"
proof -
  from assms(1) obtain q where q: "searchParams ''query'' = Some q"
    and v: "q \<noteq> []" "\<not> length (trim q) < 3"
    by (auto split: option.splits)
  from assms(2) have k: "configured (OPENROUTER_API_KEY env) \<or> configured (GOOGLE_GEMINI_API_KEY env)
          \<or> configured (GROQ_LLAMA_API_KEY env)"
    by (auto simp: no_credentials_def)
  note r = ai_search_valid [where searchParams = searchParams and q = q and env = env, OF q v k]
  from assms(4) q obtain res where "searchRecipes env (trim q) 1 None = Resolves res"
    by (auto split: promise.splits)
  then show ?thesis
    unfolding r
    by (simp add: search_data_exhausted [OF assms(3)] build_searchOptions_search_fallback
        searchTerm_or_search_fallback q)
qed

lemma set_if_given_other: "k' \<noteq> k \<Longrightarrow> map_of (set_if_given x k f kv) k' = map_of kv k'"
  by (simp add: set_if_given_def map_of_obj_set split: option.split)

lemma field_recommendations_fallback:
  "field (recommendations_fallback searchParams) ''searchTerm'' =
     Some (JStr (default_term (case searchParams ''query'' of None \<Rightarrow> [] | Some q \<Rightarrow> q)
                   (searchParams ''ingredients'')))"
  "field (recommendations_fallback searchParams) ''number'' = Some (JNum 10)"
  by (simp_all add: recommendations_fallback_def Let_def set_if_given_other)

lemma default_term_not_Nil: "default_term q i \<noteq> []"
  by (simp add: default_term_def)

lemma copy_field_not_Nil:
  "opts \<noteq> [] \<Longrightarrow> copy_string_field src k opts \<noteq> []"
  "opts \<noteq> [] \<Longrightarrow> copy_number_field src k opts \<noteq> []"
  by (simp_all add: copy_string_field_def copy_number_field_def obj_set_not_Nil
      split: option.split json.split)

lemma build_searchOptions_not_Nil: "opts \<noteq> [] \<Longrightarrow> build_searchOptions src opts \<noteq> []"
  by (simp add: build_searchOptions_def Let_def copy_field_not_Nil)

lemma ai_recommendations_valid:
  assumes "valid_request Recommendations searchParams"
    and "\<not> no_credentials Recommendations env"
  shows "fst (ai_recommendations env searchParams) =
     (case searchRecipes env
             (searchTerm_or (fst (recommendations_data env searchParams))
                (default_term (case searchParams ''query'' of None \<Rightarrow> [] | Some q \<Rightarrow> q)
                   (searchParams ''ingredients''))) 1
             (Some (build_searchOptions (fst (recommendations_data env searchParams))
                      [(''fillIngredients'', JBool True), (''addRecipeInformation'', JBool True),
                       (''addRecipeNutrition'', JBool True)])) of
        Rejects msg \<Rightarrow>
          Response 500 (JObj [(''error'', JStr ''AI recommendations failed''), (''message'', JStr msg)])
      | Resolves r \<Rightarrow>
          Response 200
            (JObj [(''recipes'',
                      JArr (slice0 (case results r of None \<Rightarrow> [] | Some xs \<Rightarrow> xs)
                              (number_or_10 (fst (recommendations_data env searchParams))))),
                   (''reason'',
                      JStr (recommendation_reason (case searchParams ''query'' of None \<Rightarrow> [] | Some q \<Rightarrow> q)
                              (searchParams ''ingredients''))),
                   (''context'', JStr (trim (recommendationContext searchParams)))]))"
  using assms
  by (auto simp: ai_recommendations_def Let_def jsonResponse_def no_credentials_def
      build_searchOptions_not_Nil split: promise.splits)

lemma ai_recommendations_fallback:
  assumes "valid_request Recommendations searchParams"
    and "\<not> no_credentials Recommendations env"
    and "recommendations_exhausted env"
    and "recipe_api_ok Recommendations env searchParams recipeInfo"
  shows "status (fst (ai_recommendations env searchParams)) = 200"
proof -
  note r = ai_recommendations_valid [OF assms(1,2)]
  from assms(4) show ?thesis
    unfolding r
    by (auto simp: recommendations_data_exhausted [OF assms(3)] searchTerm_or_def
        field_recommendations_fallback default_term_not_Nil split: promise.splits)
qed

lemma ai_modifications_fallback:
  assumes "valid_request Modifications searchParams"
    and "\<not> no_credentials Modifications env"
    and "analysis_exhausted env"
    and "recipe_api_ok Modifications env searchParams recipeInfo"
  shows "fst (ai_modifications env searchParams) =
           Response 200 (fallback_of Modifications searchParams recipeInfo)"
  using assms
  by (auto simp: ai_modifications_def Let_def jsonResponse_def no_credentials_def
      modifications_data_exhausted)

lemma ai_analysis_exhausted_response:
  assumes "valid_request Analysis searchParams"
    and "\<not> no_credentials Analysis env"
    and "analysis_exhausted env"
    and "recipe_api_ok Analysis env searchParams recipeInfo"
  shows "fst (ai_analysis env searchParams) =
           Response 200 (fallback_of Analysis searchParams recipeInfo)"
  using assms
  by (auto simp: ai_analysis_def Let_def jsonResponse_def no_credentials_def
      analysis_data_exhausted)

text \<open>The recommendation request whose only parameter is the query "quick vegan dinner".\<close>

lemma recommendations_fallback_quick_vegan:
  "recommendations_fallback quick_vegan_request =
     JObj [(''searchTerm'', JStr ''quick vegan dinner''), (''number'', JNum 10)]"
  by code_simp

lemma snd_ai_recommendations:
  assumes "valid_request Recommendations searchParams"
    and "\<not> no_credentials Recommendations env"
  shows "snd (ai_recommendations env searchParams) =
     map Provider_call (snd (recommendations_chain env)) @
       [Recipe_search
          (searchTerm_or (fst (recommendations_data env searchParams))
             (default_term (case searchParams ''query'' of None \<Rightarrow> [] | Some q \<Rightarrow> q)
                (searchParams ''ingredients'')))]"
  using assms
  by (auto simp: ai_recommendations_def Let_def no_credentials_def recommendations_data_def
      split: promise.splits)

text \<open>The two patterns, and the span of the brace pattern: from the first \<^verbatim>\<open>{\<close> to the last \<^verbatim>\<open>}\<close>.\<close>

lemma fence_literals: \<open>fence_open = ''```json''\<close> \<open>fence_close = ''```''\<close>
  by (simp_all add: fence_open_def fence_close_def)

lemma match_brace_span:
  assumes "match_brace s = Some m"
  shows "\<exists>pre post. s = pre @ m @ post \<and> CHR ''{'' \<notin> set pre \<and> CHR ''}'' \<notin> set post \<and>
           hd m = CHR ''{'' \<and> last m = CHR ''}'' \<and> 2 \<le> length m"
proof -
  let ?P = "\<lambda>c. c \<noteq> CHR ''{''" and ?Q = "\<lambda>c. c \<noteq> CHR ''}''"
  let ?t = "dropWhile ?P s"
  from assms have t: "?t \<noteq> []" and mem: "CHR ''}'' \<in> set (tl ?t)"
    and m: "m = CHR ''{'' # rev (dropWhile ?Q (rev (tl ?t)))"
    by (auto simp: match_brace_def Let_def split: if_splits)
  let ?u = "tl ?t"
  from t have "hd ?t = CHR ''{''"
    using hd_dropWhile [of ?P s] by simp
  with t have tu: "?t = CHR ''{'' # ?u"
    by (cases ?t) auto
  have u: "?u = rev (dropWhile ?Q (rev ?u)) @ rev (takeWhile ?Q (rev ?u))"
    by (metis rev_append rev_rev_ident takeWhile_dropWhile_id)
  have s: "s = takeWhile ?P s @ m @ rev (takeWhile ?Q (rev ?u))"
  proof -
    have "s = takeWhile ?P s @ ?t" by simp
    also have "?t = m @ rev (takeWhile ?Q (rev ?u))"
      using tu u m by (metis append_Cons)
    finally show ?thesis .
  qed
  have p1: "CHR ''{'' \<notin> set (takeWhile ?P s)"
    by (auto dest: set_takeWhileD)
  have p2: "CHR ''}'' \<notin> set (rev (takeWhile ?Q (rev ?u)))"
    by (auto dest: set_takeWhileD)
  from mem have ne: "dropWhile ?Q (rev ?u) \<noteq> []"
    by (simp add: dropWhile_eq_Nil_conv) 
  then have "hd (dropWhile ?Q (rev ?u)) = CHR ''}''"
    using hd_dropWhile [of ?Q "rev ?u"] by simp
  with ne have l: "last m = CHR ''}''"
    by (simp add: m last_rev)
  from ne have "2 \<le> length m"
    by (cases "dropWhile ?Q (rev ?u)") (simp_all add: m)
  with s p1 p2 l m show ?thesis
    by (intro exI [of _ "takeWhile ?P s"] exI [of _ "rev (takeWhile ?Q (rev ?u))"]) simp
qed

text \<open>The top-level keys of the two search-backed responses.\<close>

lemma ai_recommendations_200_keys:
  assumes "status (fst (ai_recommendations env searchParams)) = 200"
  shows "object_keys (body (fst (ai_recommendations env searchParams))) =
           [''recipes'', ''reason'', ''context'']"
proof -
  from assms have v: "valid_request Recommendations searchParams"
    and k: "\<not> no_credentials Recommendations env"
    by (auto simp: ai_recommendations_def Let_def jsonResponse_def no_credentials_def
        split: if_splits)
  note r = ai_recommendations_valid [OF v k]
  show ?thesis
    using assms unfolding r by (simp split: promise.splits)
qed

lemma ai_search_200_keys:
  assumes "status (fst (ai_search env searchParams)) = 200"
  shows "object_keys (body (fst (ai_search env searchParams))) =
           [''results'', ''totalResults'', ''offset'', ''number'', ''aiOptimized'',
            ''originalQuery'', ''searchParams'']"
proof -
  from assms obtain q and r :: search_response where "searchParams ''query'' = Some q"
    and b: "fst (ai_search env searchParams) =
          Response 200
            (JObj [(''results'', JArr (case results r of None \<Rightarrow> [] | Some xs \<Rightarrow> xs)),
                   (''totalResults'', num_or_0 (totalResults r)),
                   (''offset'', num_or_0 (offset r)),
                   (''number'', num_or_0 (number r)),
                   (''aiOptimized'', JBool True),
                   (''originalQuery'', JStr (trim q)),
                   (''searchParams'', fst (search_data env q))])"
    by (rule ai_search_200_body)
  show ?thesis
    unfolding b by simp
qed

text \<open>
  The providers that a chain calls: a provider is called exactly when its credential
  is configured and every configured provider before it failed.
\<close>

lemma truthy_attempt:
  "truthy (fst (attempt env ex p st)) \<longleftrightarrow>
     (if provider_fails env ex p then truthy (fst st) \<and> provider_result env ex p = None else True)"
  by (auto simp: attempt_fst provider_fails_def split: option.splits)

lemma recommendations_chain_calls:
  "snd (recommendations_chain env) =
     (if configured (OPENROUTER_API_KEY env)
      then Claude # (if provider_fails env extract_fence_brace Claude then [GPT] else [])
      else []) @
     (if (configured (OPENROUTER_API_KEY env) \<longrightarrow>
            provider_fails env extract_fence_brace Claude \<and> provider_fails env extract_fence_brace GPT)
         \<and> configured (GOOGLE_GEMINI_API_KEY env)
      then [Gemini] else []) @
     (if (configured (OPENROUTER_API_KEY env) \<longrightarrow>
            provider_fails env extract_fence_brace Claude \<and> provider_fails env extract_fence_brace GPT)
         \<and> (configured (GOOGLE_GEMINI_API_KEY env) \<longrightarrow> provider_fails env extract_fence_brace Gemini)
         \<and> configured (GROQ_LLAMA_API_KEY env)
      then [Groq] else [])"
  by (simp add: recommendations_chain_def Let_def attempt_snd truthy_attempt)

lemma search_chain_calls:
  "snd (search_chain env) =
     (if configured (OPENROUTER_API_KEY env)
      then Claude # (if provider_fails env extract_direct_brace Claude then [GPT] else [])
      else []) @
     (if (configured (OPENROUTER_API_KEY env) \<longrightarrow>
            provider_fails env extract_direct_brace Claude \<and> provider_fails env extract_direct_brace GPT)
         \<and> configured (GOOGLE_GEMINI_API_KEY env)
      then [Gemini] else []) @
     (if (configured (OPENROUTER_API_KEY env) \<longrightarrow>
            provider_fails env extract_direct_brace Claude \<and> provider_fails env extract_direct_brace GPT)
         \<and> (configured (GOOGLE_GEMINI_API_KEY env) \<longrightarrow> provider_fails env extract_fence_brace Gemini)
         \<and> configured (GROQ_LLAMA_API_KEY env)
      then [Groq] else [])"
  by (simp add: search_chain_def Let_def attempt_snd truthy_attempt)

lemma analysis_chain_calls:
  "snd (analysis_chain env) =
     (if configured (OPENROUTER_API_KEY env)
      then Claude # (if provider_fails env extract_fence_brace Claude then [GPT] else [])
      else []) @
     (if (configured (OPENROUTER_API_KEY env) \<longrightarrow>
            provider_fails env extract_fence_brace Claude \<and> provider_fails env extract_fence_brace GPT)
         \<and> configured (GOOGLE_GEMINI_API_KEY env)
      then [Gemini] else [])"
  by (simp add: analysis_chain_def Let_def attempt_snd truthy_attempt)

lemma modifications_chain_calls: "snd (modifications_chain env) = snd (analysis_chain env)"
  by (simp add: modifications_chain_def analysis_chain_def)

text \<open>
  Each chain is the loop over its providers, and the loop ends at the first configured
  provider that leaves a truthy value.
\<close>

lemma chain_of_guarded: "chain_of e env = foldl (guarded env e) (JNull, []) (chain_providers e)"
  by (cases e)
     (simp_all add: chain_of_def search_chain_def recommendations_chain_def analysis_chain_def
        modifications_chain_def chain_providers_def guarded_def Let_def credential_of_def
        extractor_of_def)

lemma guarded_done: "truthy (fst st) \<Longrightarrow> foldl (guarded env e) st ps = st"
  by (induction ps) (simp_all add: guarded_def)

lemma guarded_first_truthy:
  assumes "p \<in> set ps"
    and "configured (credential_of p env)"
    and "\<forall>q\<in>set (takeWhile (\<lambda>q. q \<noteq> p) ps).
           configured (credential_of q env) \<longrightarrow> provider_fails env (extractor_of e q) q"
    and "provider_result env (extractor_of e p) p = Some v"
    and "truthy v"
    and "\<not> truthy (fst st)"
  shows "foldl (guarded env e) st ps =
           (v, snd st @ filter (\<lambda>q. configured (credential_of q env)) (takeWhile (\<lambda>q. q \<noteq> p) ps) @ [p])"
  using assms
proof (induction ps arbitrary: st)
  case Nil
  then show ?case by simp
next
  case (Cons q ps)
  show ?case
  proof (cases "q = p")
    case True
    with Cons.prems have "guarded env e st q = (v, snd st @ [p])"
      by (simp add: guarded_def attempt_def)
    with True Cons.prems(5) show ?thesis
      by (simp add: guarded_done)
  next
    case False
    with Cons.prems have p: "p \<in> set ps" by simp
    from False Cons.prems(3)
    have fq: "configured (credential_of q env) \<longrightarrow> provider_fails env (extractor_of e q) q"
      and rest: "\<forall>q\<in>set (takeWhile (\<lambda>q. q \<noteq> p) ps).
           configured (credential_of q env) \<longrightarrow> provider_fails env (extractor_of e q) q"
      by simp_all
    show ?thesis
    proof (cases "configured (credential_of q env)")
      case True
      with fq Cons.prems(6) have f: "\<not> truthy (fst (guarded env e st q))"
        and s: "snd (guarded env e st q) = snd st @ [q]"
        by (simp_all add: guarded_def attempt_fails attempt_snd)
      from Cons.IH [OF p Cons.prems(2) rest Cons.prems(4,5) f] s True False show ?thesis
        by simp
    next
      case c: False
      then have "guarded env e st q = st"
        by (simp add: guarded_def)
      with Cons.IH [OF p Cons.prems(2) rest Cons.prems(4,5,6)] c False show ?thesis
        by simp
    qed
  qed
qed

lemma chain_first_truthy:
  assumes "p \<in> set (chain_providers e)"
    and "configured (credential_of p env)"
    and "\<forall>q\<in>set (predecessors e p).
           configured (credential_of q env) \<longrightarrow> provider_fails env (extractor_of e q) q"
    and "provider_result env (extractor_of e p) p = Some v"
    and "truthy v"
  shows "chain_of e env =
           (v, filter (\<lambda>q. configured (credential_of q env)) (predecessors e p) @ [p])"
  using guarded_first_truthy [OF assms(1,2) assms(3) [unfolded predecessors_def] assms(4,5), of "(JNull, [])"]
  by (simp add: chain_of_guarded predecessors_def)

lemma data_of_chain:
  "truthy (fst (chain_of e env)) \<Longrightarrow> data_of e env searchParams recipeInfo = chain_of e env"
  by (cases e)
     (simp_all add: chain_of_def search_data_def recommendations_data_def analysis_data_def
        modifications_data_def Let_def)

lemma data_of_first_truthy:
  assumes "p \<in> set (chain_providers e)"
    and "configured (credential_of p env)"
    and "\<forall>q\<in>set (predecessors e p).
           configured (credential_of q env) \<longrightarrow> provider_fails env (extractor_of e q) q"
    and "provider_result env (extractor_of e p) p = Some v"
    and "truthy v"
  shows "data_of e env searchParams recipeInfo =
           (v, filter (\<lambda>q. configured (credential_of q env)) (predecessors e p) @ [p])"
proof -
  note c = chain_first_truthy [OF assms]
  with assms(5) have "truthy (fst (chain_of e env))" by simp
  then show ?thesis
    using c by (simp add: data_of_chain)
qed

lemma not_2xx_fails: "\<not> answers_2xx env q \<Longrightarrow> provider_fails env ex q"
  by (simp add: answers_2xx_def provider_fails_def provider_result_def split: fetch_outcome.splits)

lemma exhausted_iff:
  "exhausted e env \<longleftrightarrow>
     (\<forall>q\<in>set (chain_providers e).
        configured (credential_of q env) \<longrightarrow> provider_fails env (extractor_of e q) q)"
  by (cases e)
     (auto simp: search_exhausted_def recommendations_exhausted_def analysis_exhausted_def
        chain_providers_def credential_of_def extractor_of_def)

lemma data_of_exhausted: "exhausted e env \<Longrightarrow> fst (data_of e env searchParams recipeInfo) = fallback_of e searchParams recipeInfo"
  by (cases e)
     (simp_all add: search_data_exhausted recommendations_data_exhausted analysis_data_exhausted
        modifications_data_exhausted)

section \<open>The properties\<close>

text \<open>
  C1, as the code has it. On every endpoint: if a provider of the chain is configured,
  every configured provider before it fails (its request throws, its status is not
  2xx, nothing is extracted from its text, or the extracted value is falsy), and its
  own 2xx answer yields a JSON object (or any other truthy value), then the
  structured data of the handler is that value and the providers called are exactly
  the configured providers up to and including it: no later provider is called,
  whatever it would have answered.
\<close>

theorem first_truthy_provider_wins:
  assumes "p \<in> set (chain_providers e)"
    and "configured (credential_of p env)"
    and "\<forall>q\<in>set (predecessors e p).
           configured (credential_of q env) \<longrightarrow> provider_fails env (extractor_of e q) q"
    and "provider_result env (extractor_of e p) p = Some v"
    and "truthy v"
  shows "data_of e env searchParams recipeInfo =
           (v, filter (\<lambda>q. configured (credential_of q env)) (predecessors e p) @ [p])"
  using assms by (rule data_of_first_truthy)

theorem first_truthy_provider_wins_witness:
  \<open>GPT \<in> set (chain_providers Recommendations) \<and>
   configured (credential_of GPT gpt_answers_env) \<and>
   predecessors Recommendations GPT = [Claude] \<and>
   provider_fails gpt_answers_env (extractor_of Recommendations Claude) Claude \<and>
   provider_result gpt_answers_env (extractor_of Recommendations GPT) GPT =
     Some (JObj [(''searchTerm'', JStr ''vegan curry''), (''diet'', JStr ''vegan'')]) \<and>
   data_of Recommendations gpt_answers_env quick_vegan_request example_recipe =
     (JObj [(''searchTerm'', JStr ''vegan curry''), (''diet'', JStr ''vegan'')], [Claude, GPT])\<close>
proof -
  have h1: "GPT \<in> set (chain_providers Recommendations)"
    by code_simp
  have h2: "configured (credential_of GPT gpt_answers_env)"
    by code_simp
  have h3: "\<forall>q\<in>set (predecessors Recommendations GPT).
           configured (credential_of q gpt_answers_env) \<longrightarrow>
           provider_fails gpt_answers_env (extractor_of Recommendations q) q"
    by code_simp
  have h4: "provider_result gpt_answers_env (extractor_of Recommendations GPT) GPT =
     Some (JObj [(''searchTerm'', JStr ''vegan curry''), (''diet'', JStr ''vegan'')])"
    by code_simp
  have h5: "truthy (JObj [(''searchTerm'', JStr ''vegan curry''), (''diet'', JStr ''vegan'')])"
    by simp
  have h6: "predecessors Recommendations GPT = [Claude]"
    "provider_fails gpt_answers_env (extractor_of Recommendations Claude) Claude"
    "filter (\<lambda>q. configured (credential_of q gpt_answers_env)) [Claude] = [Claude]"
    by code_simp+
  show ?thesis
    using first_truthy_provider_wins [OF h1 h2 h3 h4 h5, of quick_vegan_request example_recipe]
      h1 h2 h4 h6
    by simp
qed

text \<open>
  The claim as stated fails: a provider may answer 2xx with JSON that is truthy but
  not an object. When Claude answers with the array \<^verbatim>\<open>[1, 2]\<close> or with the number
  \<^verbatim>\<open>7\<close>, GPT is the first provider whose answer would yield a JSON object, yet the
  chain ends at Claude, GPT is not called, and the structured data is the array or
  the number.
\<close>

theorem earlier_non_object_ends_chain:
  \<open>fetch array_answer_env Claude = Response_ok (Some ''[1, 2]'') \<and>
   provider_result array_answer_env (extractor_of Search Claude) Claude =
     Some (JArr [JNum 1, JNum 2]) \<and>
   provider_result array_answer_env (extractor_of Search GPT) GPT =
     Some (JObj [(''searchTerm'', JStr ''soup'')]) \<and>
   data_of Search array_answer_env pasta_request example_recipe =
     (JArr [JNum 1, JNum 2], [Claude]) \<and>
   fetch number_answer_env Claude = Response_ok (Some ''7'') \<and>
   provider_result number_answer_env (extractor_of Analysis Claude) Claude = Some (JNum 7) \<and>
   provider_result number_answer_env (extractor_of Analysis GPT) GPT =
     Some (JObj [(''searchTerm'', JStr ''soup'')]) \<and>
   data_of Analysis number_answer_env analysis_request example_recipe = (JNum 7, [Claude]) \<and>
   handler_of Analysis number_answer_env analysis_request =
     (Response 200 (JNum 7), [Recipe_fetch ''716429'', Provider_call Claude])\<close>
  by code_simp

text \<open>
  C2, as the code has it. For a request that passes the parameter checks, with at
  least one credential of the endpoint configured, when every configured provider
  fails and the handler's own call to the recipe API succeeds, the answer is a 200
  built from the fallback: the structured data is the fallback, it is the body of the
  analysis and of the modification response, and the \<^verbatim>\<open>searchParams\<close> of the search
  response.
\<close>

theorem exhausted_chain_answers_fallback:
  assumes "valid_request e searchParams"
    and "\<not> no_credentials e env"
    and "exhausted e env"
    and "recipe_api_ok e env searchParams recipeInfo"
  shows "status (fst (handler_of e env searchParams)) = 200 \<and>
         fst (data_of e env searchParams recipeInfo) = fallback_of e searchParams recipeInfo \<and>
         (e = Search \<longrightarrow>
            field (body (fst (handler_of e env searchParams))) ''searchParams'' =
              Some (fallback_of e searchParams recipeInfo)) \<and>
         (e = Analysis \<or> e = Modifications \<longrightarrow>
            body (fst (handler_of e env searchParams)) = fallback_of e searchParams recipeInfo)"
proof -
  have d: "fst (data_of e env searchParams recipeInfo) = fallback_of e searchParams recipeInfo"
    using assms(3) by (cases e)
      (simp_all add: search_data_exhausted recommendations_data_exhausted
        analysis_data_exhausted modifications_data_exhausted)
  show ?thesis
  proof (cases e)
    case Search
    with assms ai_search_fallback [of searchParams env recipeInfo] d show ?thesis
      by simp
  next
    case Recommendations
    with assms ai_recommendations_fallback [of searchParams env recipeInfo] d show ?thesis
      by simp
  next
    case Analysis
    with assms ai_analysis_exhausted_response [of searchParams env recipeInfo] d show ?thesis
      by simp
  next
    case Modifications
    with assms ai_modifications_fallback [of searchParams env recipeInfo] d show ?thesis
      by simp
  qed
qed

theorem exhausted_chain_answers_fallback_witness:
  "valid_request Modifications modification_request \<and>
   \<not> no_credentials Modifications failing_env2 \<and> exhausted Modifications failing_env2 \<and>
   recipe_api_ok Modifications failing_env2 modification_request example_recipe \<and>
   fst (handler_of Modifications failing_env2 modification_request) =
     Response 200
       (JObj [(''modifiedIngredients'', JArr []),
              (''modifiedInstructions'', JStr ''Boil the pasta.''),
              (''explanation'',
                 JStr ''Dietary conversion not available. Please check recipe ingredients manually.'')])"
proof -
  have h1: "valid_request Modifications modification_request"
    by code_simp
  have h2: "\<not> no_credentials Modifications failing_env2"
    by code_simp
  have h3: "exhausted Modifications failing_env2"
    by code_simp
  have h4: "recipe_api_ok Modifications failing_env2 modification_request example_recipe"
    by code_simp
  have h5: "fallback_of Modifications modification_request example_recipe =
       JObj [(''modifiedIngredients'', JArr []),
              (''modifiedInstructions'', JStr ''Boil the pasta.''),
              (''explanation'',
                 JStr ''Dietary conversion not available. Please check recipe ingredients manually.'')]"
    by code_simp
  show ?thesis
    using exhausted_chain_answers_fallback [OF h1 h2 h3 h4] h1 h2 h3 h4 h5
    by (cases "fst (handler_of Modifications failing_env2 modification_request)") simp
qed

text \<open>
  The claim as stated fails: when all providers are unconfigured the answer is the
  500 configuration error; when all providers fail and the recipe search throws it
  is the 500 of the handler's \<^verbatim>\<open>catch\<close>; and a request that fails the parameter
  checks is answered 400 whatever the providers would do.
\<close>

theorem exhausted_but_not_200:
  "exhausted Search no_keys_env \<and> valid_request Search pasta_request \<and>
   handler_of Search no_keys_env pasta_request = (Response 500 no_keys_groq, []) \<and>
   exhausted Search search_down_env \<and> \<not> no_credentials Search search_down_env \<and>
   fst (handler_of Search search_down_env pasta_request) =
     Response 500 (JObj [(''error'', JStr ''AI search failed''),
                         (''message'', JStr ''Request failed with status code 402'')]) \<and>
   exhausted Search failing_env \<and> \<not> no_credentials Search failing_env \<and>
   handler_of Search failing_env short_request =
     (Response 400 (JObj [(''error'', JStr ''Query must be at least 3 characters'')]), [])"
  by code_simp

text \<open>
  C3, as the code has it. When the credential check of an endpoint finds no
  credential, the handler makes no outbound call at all (no provider request, no
  recipe fetch, no recipe search). A request that passes the parameter checks is
  answered 500 with the configuration error; a request that fails them is answered
  400, because the parameter checks come before the credential check.
\<close>

theorem no_credentials_no_outbound_call:
  assumes "no_credentials e env"
  shows "snd (handler_of e env searchParams) = [] \<and>
         (valid_request e searchParams \<longrightarrow>
            fst (handler_of e env searchParams) = Response 500 (no_keys_error e)) \<and>
         (\<not> valid_request e searchParams \<longrightarrow> status (fst (handler_of e env searchParams)) = 400)"
proof (cases e)
  case Search
  with assms show ?thesis
    by (cases "searchParams ''query''")
       (simp_all add: ai_search_def no_credentials_def no_keys_error_def jsonResponse_def)
next
  case Recommendations
  with assms show ?thesis
    by (simp add: ai_recommendations_def Let_def no_credentials_def no_keys_error_def jsonResponse_def)
next
  case Analysis
  with assms show ?thesis
    by (simp add: ai_analysis_def Let_def no_credentials_def no_keys_error_def jsonResponse_def)
next
  case Modifications
  with assms show ?thesis
    by (simp add: ai_modifications_def Let_def no_credentials_def no_keys_error_def jsonResponse_def)
qed

theorem no_credentials_no_outbound_call_witness:
  "no_credentials Analysis no_keys_env \<and> valid_request Analysis analysis_request \<and>
   handler_of Analysis no_keys_env analysis_request = (Response 500 no_keys_hugging_face, [])"
proof -
  have h1: "no_credentials Analysis no_keys_env"
    by code_simp
  have h2: "valid_request Analysis analysis_request"
    by code_simp
  show ?thesis
    using no_credentials_no_outbound_call [OF h1, of analysis_request] h1 h2
    by (simp add: prod_eq_iff no_keys_error_def)
qed

text \<open>
  The claim as stated fails: with no credential at all, a search request whose query
  has two characters is answered 400, not 500.
\<close>

theorem no_credentials_invalid_request_400:
  "no_credentials Search no_keys_env \<and>
   OPENROUTER_API_KEY no_keys_env = None \<and> GOOGLE_GEMINI_API_KEY no_keys_env = None \<and>
   GROQ_LLAMA_API_KEY no_keys_env = None \<and> HUGGING_FACE_INFERENCE_API_KEY no_keys_env = None \<and>
   short_request ''query'' = Some ''ab'' \<and>
   handler_of Search no_keys_env short_request =
     (Response 400 (JObj [(''error'', JStr ''Query must be at least 3 characters'')]), [])"
  by code_simp

text \<open>
  C4. When the recipe fetched by the analysis endpoint has \<^verbatim>\<open>glutenFree: false\<close>,
  \<^verbatim>\<open>dairyFree: false\<close> and \<^verbatim>\<open>readyInMinutes: 75\<close>, and every configured provider fails,
  the answer is a 200 whose \<^verbatim>\<open>allergens\<close> array has exactly the two entries gluten and
  dairy, each of severity medium, and whose \<^verbatim>\<open>cookingDifficulty.level\<close> is
  \<^verbatim>\<open>"advanced"\<close>.
\<close>

theorem analysis_fallback_allergens_difficulty:
  assumes "Recipe_fetch rid \<in> set (snd (ai_analysis env searchParams))"
    and "getRecipeInformation env rid = Resolves (Some recipeInfo)"
    and "glutenFree recipeInfo = Some False"
    and "dairyFree recipeInfo = Some False"
    and "readyInMinutes recipeInfo = Some 75"
    and "analysis_exhausted env"
  shows "status (fst (ai_analysis env searchParams)) = 200 \<and>
         field (body (fst (ai_analysis env searchParams))) ''allergens'' =
           Some (JArr [JObj [(''allergen'', JStr ''gluten''), (''severity'', JStr ''medium'')],
                       JObj [(''allergen'', JStr ''dairy''), (''severity'', JStr ''medium'')]]) \<and>
         get_path (body (fst (ai_analysis env searchParams))) [''cookingDifficulty'', ''level''] =
           Some (JStr ''advanced'')"
proof -
  have r: "fst (ai_analysis env searchParams) = Response 200 (analysis_fallback recipeInfo)"
    using ai_analysis_fetched [OF assms(1)] assms(2,6) by (rule ai_analysis_fallback)
  show ?thesis
    unfolding r using assms(3-5)
    by (simp add: analysis_fallback_def fallback_allergens_def ready_over_def)
qed

theorem analysis_fallback_allergens_difficulty_witness:
  "Recipe_fetch ''716429'' \<in> set (snd (ai_analysis failing_env analysis_request)) \<and>
   getRecipeInformation failing_env ''716429'' = Resolves (Some example_recipe) \<and>
   glutenFree example_recipe = Some False \<and> dairyFree example_recipe = Some False \<and>
   readyInMinutes example_recipe = Some 75 \<and> analysis_exhausted failing_env \<and>
   status (fst (ai_analysis failing_env analysis_request)) = 200 \<and>
   get_path (body (fst (ai_analysis failing_env analysis_request))) [''cookingDifficulty'', ''level''] =
     Some (JStr ''advanced'')"
proof -
  have h1: "Recipe_fetch ''716429'' \<in> set (snd (ai_analysis failing_env analysis_request))"
    by code_simp
  have h2: "getRecipeInformation failing_env ''716429'' = Resolves (Some example_recipe)"
    by (simp add: failing_env_def)
  have h3: "glutenFree example_recipe = Some False" "dairyFree example_recipe = Some False"
    "readyInMinutes example_recipe = Some 75"
    by (simp_all add: example_recipe_def)
  have h4: "analysis_exhausted failing_env"
    by code_simp
  show ?thesis
    using analysis_fallback_allergens_difficulty [OF h1 h2 h3 h4] h1 h2 h3 h4 by simp
qed

text \<open>
  C5, as the code has it. For the recommendation request whose only parameter is
  \<^verbatim>\<open>query = "quick vegan dinner"\<close>, when at least one credential is configured and
  every configured provider fails, the structured data is
  \<^verbatim>\<open>{searchTerm: "quick vegan dinner", number: 10}\<close>, without \<^verbatim>\<open>diet\<close> and \<^verbatim>\<open>cuisine\<close>,
  and the recipe search that follows the provider calls is for that term.
\<close>

theorem quick_vegan_dinner_fallback:
  assumes "\<not> no_credentials Recommendations env"
    and "recommendations_exhausted env"
  shows "fst (recommendations_data env quick_vegan_request) =
           JObj [(''searchTerm'', JStr ''quick vegan dinner''), (''number'', JNum 10)] \<and>
         field (fst (recommendations_data env quick_vegan_request)) ''diet'' = None \<and>
         field (fst (recommendations_data env quick_vegan_request)) ''cuisine'' = None \<and>
         snd (ai_recommendations env quick_vegan_request) =
           map Provider_call (snd (recommendations_chain env)) @ [Recipe_search ''quick vegan dinner'']"
proof -
  have v: "valid_request Recommendations quick_vegan_request"
    by code_simp
  have d: "fst (recommendations_data env quick_vegan_request) =
           JObj [(''searchTerm'', JStr ''quick vegan dinner''), (''number'', JNum 10)]"
    using assms(2) by (simp add: recommendations_data_exhausted recommendations_fallback_quick_vegan)
  show ?thesis
    unfolding snd_ai_recommendations [OF v assms(1)] d
    by (simp add: searchTerm_or_def)
qed

theorem quick_vegan_dinner_fallback_witness:
  "\<not> no_credentials Recommendations failing_env \<and> recommendations_exhausted failing_env \<and>
   fst (recommendations_data failing_env quick_vegan_request) =
     JObj [(''searchTerm'', JStr ''quick vegan dinner''), (''number'', JNum 10)] \<and>
   snd (ai_recommendations failing_env quick_vegan_request) =
     [Provider_call Claude, Provider_call GPT, Provider_call Gemini,
      Recipe_search ''quick vegan dinner'']"
proof -
  have h1: "\<not> no_credentials Recommendations failing_env"
    by code_simp
  have h2: "recommendations_exhausted failing_env"
    by code_simp
  have h3: "snd (recommendations_chain failing_env) = [Claude, GPT, Gemini]"
    by code_simp
  show ?thesis
    using quick_vegan_dinner_fallback [OF h1 h2] h1 h2 h3 by simp
qed

text \<open>
  The claim as stated fails: with all providers unconfigured the same request is
  answered with the 500 configuration error and no fallback is built.
\<close>

theorem quick_vegan_dinner_unconfigured_500:
  "OPENROUTER_API_KEY no_keys_env = None \<and> GOOGLE_GEMINI_API_KEY no_keys_env = None \<and>
   GROQ_LLAMA_API_KEY no_keys_env = None \<and> HUGGING_FACE_INFERENCE_API_KEY no_keys_env = None \<and>
   quick_vegan_request ''query'' = Some ''quick vegan dinner'' \<and>
   ai_recommendations no_keys_env quick_vegan_request =
     (Response 500
        (JObj [(''error'', JStr ''No AI API keys configured (OpenRouter, Gemini, or Groq required)'')]),
      [])"
  by code_simp

text \<open>
  C6, as the code has it. Take a configured provider \<open>p\<close> of the chain of an endpoint
  that answers 2xx with text \<open>t\<close>, no configured provider before it answering 2xx.
  If \<open>p\<close> is Claude or GPT on \<^verbatim>\<open>/api/ai/search\<close>, the full text is parsed first and,
  when that fails, the brace span is parsed; there is no fence step. In each of the
  other twelve branches exactly one text is parsed: the interior of the fenced block
  when there is one (the whole block when the interior is empty), else the brace
  span when there is one, else the full text. A truthy value obtained this way is
  the structured data of the handler. When nothing is obtained and no other provider
  answers 2xx, the structured data is the fallback: no further strategy is tried.
  The brace span runs from the first \<^verbatim>\<open>{\<close> to the last \<^verbatim>\<open>}\<close>.
\<close>

theorem branch_extraction_forms:
  assumes "p \<in> set (chain_providers e)"
    and "configured (credential_of p env)"
    and "\<forall>q\<in>set (predecessors e p). configured (credential_of q env) \<longrightarrow> \<not> answers_2xx env q"
    and "fetch env p = Response_ok c"
    and "t = ai_content c"
  shows "(e = Search \<and> (p = Claude \<or> p = GPT) \<and> truthy v \<and>
          (case JSON_parse env t of
             Some x \<Rightarrow> Some x
           | None \<Rightarrow> (case match_brace t of None \<Rightarrow> None | Some m \<Rightarrow> JSON_parse env m)) = Some v
          \<longrightarrow> fst (data_of e env searchParams recipeInfo) = v) \<and>
         (\<not> (e = Search \<and> (p = Claude \<or> p = GPT)) \<and> truthy v \<and>
          JSON_parse env
            (case match_fence t of
               Some (m0, m1) \<Rightarrow> if m1 \<noteq> [] then m1 else m0
             | None \<Rightarrow> (case match_brace t of Some m \<Rightarrow> m | None \<Rightarrow> t)) = Some v
          \<longrightarrow> fst (data_of e env searchParams recipeInfo) = v) \<and>
         ((\<forall>q\<in>set (chain_providers e). q \<noteq> p \<longrightarrow> \<not> answers_2xx env q) \<and>
          (if e = Search \<and> (p = Claude \<or> p = GPT) then
             (case JSON_parse env t of
                Some x \<Rightarrow> Some x
              | None \<Rightarrow> (case match_brace t of None \<Rightarrow> None | Some m \<Rightarrow> JSON_parse env m))
           else
             JSON_parse env
               (case match_fence t of
                  Some (m0, m1) \<Rightarrow> if m1 \<noteq> [] then m1 else m0
                | None \<Rightarrow> (case match_brace t of Some m \<Rightarrow> m | None \<Rightarrow> t))) = None
          \<longrightarrow> fst (data_of e env searchParams recipeInfo) = fallback_of e searchParams recipeInfo) \<and>
         (match_brace t = Some m \<longrightarrow>
            (\<exists>pre post. t = pre @ m @ post \<and> CHR ''{'' \<notin> set pre \<and> CHR ''}'' \<notin> set post \<and>
               hd m = CHR ''{'' \<and> last m = CHR ''}''))"
proof -
  let ?direct = "case JSON_parse env t of
             Some x \<Rightarrow> Some x
           | None \<Rightarrow> (case match_brace t of None \<Rightarrow> None | Some m \<Rightarrow> JSON_parse env m)"
  let ?single = "JSON_parse env
            (case match_fence t of
               Some (m0, m1) \<Rightarrow> if m1 \<noteq> [] then m1 else m0
             | None \<Rightarrow> (case match_brace t of Some m \<Rightarrow> m | None \<Rightarrow> t))"
  have pr: "provider_result env (extractor_of e p) p =
              (if e = Search \<and> (p = Claude \<or> p = GPT) then ?direct else ?single)"
    unfolding assms(5) using assms(4)
    by (auto simp: provider_result_def extractor_of_def extract_direct_brace_def
        extract_fence_brace_def parse_target_def)
  have pf: "\<forall>q\<in>set (predecessors e p).
           configured (credential_of q env) \<longrightarrow> provider_fails env (extractor_of e q) q"
    using assms(3) by (simp add: not_2xx_fails)
  have win: "fst (data_of e env searchParams recipeInfo) = v"
    if "provider_result env (extractor_of e p) p = Some v" and "truthy v"
    using data_of_first_truthy [OF assms(1,2) pf that, of searchParams recipeInfo] by simp
  have lose: "fst (data_of e env searchParams recipeInfo) = fallback_of e searchParams recipeInfo"
    if o: "\<forall>q\<in>set (chain_providers e). q \<noteq> p \<longrightarrow> \<not> answers_2xx env q"
      and n: "provider_result env (extractor_of e p) p = None"
  proof -
    have "provider_fails env (extractor_of e q) q" if "q \<in> set (chain_providers e)" for q
    proof (cases "q = p")
      case True
      with n show ?thesis by (simp add: provider_fails_def)
    next
      case False
      with o that show ?thesis by (simp add: not_2xx_fails)
    qed
    then have "exhausted e env"
      by (simp add: exhausted_iff)
    then show ?thesis
      by (rule data_of_exhausted)
  qed
  have w1: "fst (data_of e env searchParams recipeInfo) = v"
    if a: "e = Search \<and> (p = Claude \<or> p = GPT)" and b: "truthy v" and c: "?direct = Some v"
  proof -
    have "provider_result env (extractor_of e p) p = Some v"
      unfolding pr if_P [OF a] by (rule c)
    then show ?thesis using b by (rule win)
  qed
  have w2: "fst (data_of e env searchParams recipeInfo) = v"
    if a: "\<not> (e = Search \<and> (p = Claude \<or> p = GPT))" and b: "truthy v" and c: "?single = Some v"
  proof -
    have "provider_result env (extractor_of e p) p = Some v"
      unfolding pr if_not_P [OF a] by (rule c)
    then show ?thesis using b by (rule win)
  qed
  have l: "fst (data_of e env searchParams recipeInfo) = fallback_of e searchParams recipeInfo"
    if a: "\<forall>q\<in>set (chain_providers e). q \<noteq> p \<longrightarrow> \<not> answers_2xx env q"
      and b: "(if e = Search \<and> (p = Claude \<or> p = GPT) then ?direct else ?single) = None"
  proof -
    have "provider_result env (extractor_of e p) p = None"
      unfolding pr by (rule b)
    with a show ?thesis by (rule lose)
  qed
  have span: "match_brace t = Some m \<longrightarrow>
            (\<exists>pre post. t = pre @ m @ post \<and> CHR ''{'' \<notin> set pre \<and> CHR ''}'' \<notin> set post \<and>
               hd m = CHR ''{'' \<and> last m = CHR ''}'')"
    using match_brace_span [of t m] by blast
  show ?thesis
    using w1 w2 l span by blast
qed

theorem branch_extraction_forms_witness:
  \<open>GPT \<in> set (chain_providers Search) \<and> configured (credential_of GPT gpt_answers_env) \<and>
   predecessors Search GPT = [Claude] \<and> \<not> answers_2xx gpt_answers_env Claude \<and>
   fetch gpt_answers_env GPT = Response_ok (Some gpt_answer) \<and>
   JSON_parse gpt_answers_env gpt_answer = None \<and>
   match_brace gpt_answer = Some ''{"searchTerm": "vegan curry", "diet": "vegan"}'' \<and>
   fst (data_of Search gpt_answers_env pasta_request example_recipe) =
     JObj [(''searchTerm'', JStr ''vegan curry''), (''diet'', JStr ''vegan'')] \<and>
   Gemini \<in> set (chain_providers Analysis) \<and>
   configured (credential_of Gemini fenced_garbage_env) \<and>
   \<not> answers_2xx fenced_garbage_env Claude \<and> \<not> answers_2xx fenced_garbage_env GPT \<and>
   fetch fenced_garbage_env Gemini = Response_ok (Some ''```json oops ``` {"a": 1}'') \<and>
   match_fence ''```json oops ``` {"a": 1}'' = Some (''```json oops ```'', ''oops'') \<and>
   JSON_parse fenced_garbage_env ''oops'' = None \<and>
   match_brace ''```json oops ``` {"a": 1}'' = Some ''{"a": 1}'' \<and>
   fst (data_of Analysis fenced_garbage_env analysis_request example_recipe) =
     analysis_fallback example_recipe\<close>
proof -
  have a1: "GPT \<in> set (chain_providers Search)" "configured (credential_of GPT gpt_answers_env)"
    by code_simp+
  have a2: "\<forall>q\<in>set (predecessors Search GPT).
              configured (credential_of q gpt_answers_env) \<longrightarrow> \<not> answers_2xx gpt_answers_env q"
    by code_simp
  have a3: "fetch gpt_answers_env GPT = Response_ok (Some gpt_answer)"
    by code_simp
  have a4: "gpt_answer = ai_content (Some gpt_answer)"
    by code_simp
  have a5: \<open>JSON_parse gpt_answers_env gpt_answer = None\<close>
    \<open>match_brace gpt_answer = Some ''{"searchTerm": "vegan curry", "diet": "vegan"}''\<close>
    \<open>JSON_parse gpt_answers_env ''{"searchTerm": "vegan curry", "diet": "vegan"}'' =
       Some (JObj [(''searchTerm'', JStr ''vegan curry''), (''diet'', JStr ''vegan'')])\<close>
    "predecessors Search GPT = [Claude]" "\<not> answers_2xx gpt_answers_env Claude"
    by code_simp+
  have b1: "Gemini \<in> set (chain_providers Analysis)"
    "configured (credential_of Gemini fenced_garbage_env)"
    by code_simp+
  have b2: "\<forall>q\<in>set (predecessors Analysis Gemini).
              configured (credential_of q fenced_garbage_env) \<longrightarrow> \<not> answers_2xx fenced_garbage_env q"
    by code_simp
  have b3: \<open>fetch fenced_garbage_env Gemini = Response_ok (Some ''```json oops ``` {"a": 1}'')\<close>
    by code_simp
  have b4: \<open>''```json oops ``` {"a": 1}'' = ai_content (Some ''```json oops ``` {"a": 1}'')\<close>
    by code_simp
  have b5: \<open>match_fence ''```json oops ``` {"a": 1}'' = Some (''```json oops ```'', ''oops'')\<close>
    \<open>JSON_parse fenced_garbage_env ''oops'' = None\<close>
    \<open>match_brace ''```json oops ``` {"a": 1}'' = Some ''{"a": 1}''\<close>
    \<open>\<forall>q\<in>set (chain_providers Analysis). q \<noteq> Gemini \<longrightarrow> \<not> answers_2xx fenced_garbage_env q\<close>
    "\<not> answers_2xx fenced_garbage_env Claude" "\<not> answers_2xx fenced_garbage_env GPT"
    "fallback_of Analysis analysis_request example_recipe = analysis_fallback example_recipe"
    by code_simp+
  show ?thesis
    using branch_extraction_forms [OF a1 a2 a3 a4,
        of "JObj [(''searchTerm'', JStr ''vegan curry''), (''diet'', JStr ''vegan'')]"
           pasta_request example_recipe]
      branch_extraction_forms [OF b1 b2 b3 b4, of _ analysis_request example_recipe]
      a1 a3 a5 b1 b3 b5
    by simp
qed

text \<open>
  The claim as stated fails. A JSON object with a fenced block inside one of its
  strings parses directly, but the fence-first branches parse the interior \<^verbatim>\<open>x\<close> of the
  block and extract nothing. A fenced object followed by prose with braces is
  recovered by the specified second step, but the search branches have no such step
  and their brace span is not JSON.
\<close>

theorem extraction_differs_from_spec_order:
  \<open>fence_inside_object = ''{"note": "```json x ```", "searchTerm": "soup"}'' \<and>
   spec_extract json_parse fence_inside_object =
     Some (JObj [(''note'', JStr ''```json x ```''), (''searchTerm'', JStr ''soup'')]) \<and>
   extract_fence_brace json_parse fence_inside_object = None \<and>
   fence_then_braces = ''```json {"a": 1} ``` Use {curly} braces.'' \<and>
   spec_extract json_parse fence_then_braces = Some (JObj [(''a'', JNum 1)]) \<and>
   extract_direct_brace json_parse fence_then_braces = None\<close>
  by code_simp

text \<open>
  C7, as the code has it. The analysis fallback has four of the six top-level keys
  that the analysis prompt asks for: \<^verbatim>\<open>healthScore\<close>, \<^verbatim>\<open>nutritionAnalysis\<close>,
  \<^verbatim>\<open>allergens\<close> and \<^verbatim>\<open>cookingDifficulty\<close>. The modification fallback has exactly the
  three keys that its prompt asks for. Every 200 response of the search and of the
  recommendation endpoint has the same top-level keys, whichever path produced the
  structured data.
\<close>

theorem fallback_top_level_keys:
  "object_keys (analysis_fallback recipeInfo) =
     [''healthScore'', ''nutritionAnalysis'', ''allergens'', ''cookingDifficulty''] \<and>
   set (object_keys (analysis_fallback recipeInfo)) \<subseteq> set analysis_schema_keys \<and>
   object_keys (modifications_fallback modificationType recipeInfo) =
     modification_schema_keys modificationType \<and>
   (status (fst (ai_search env searchParams)) = 200 \<longrightarrow>
      object_keys (body (fst (ai_search env searchParams))) =
        [''results'', ''totalResults'', ''offset'', ''number'', ''aiOptimized'',
         ''originalQuery'', ''searchParams'']) \<and>
   (status (fst (ai_recommendations env searchParams)) = 200 \<longrightarrow>
      object_keys (body (fst (ai_recommendations env searchParams))) =
        [''recipes'', ''reason'', ''context''])"
  by (simp add: ai_search_200_keys ai_recommendations_200_keys analysis_fallback_def
      analysis_schema_keys_def modifications_fallback_def modification_schema_keys_def)

theorem fallback_top_level_keys_witness:
  "status (fst (ai_search failing_env pasta_request)) = 200 \<and>
   status (fst (ai_recommendations failing_env quick_vegan_request)) = 200 \<and>
   object_keys (body (fst (ai_search failing_env pasta_request))) =
     [''results'', ''totalResults'', ''offset'', ''number'', ''aiOptimized'',
      ''originalQuery'', ''searchParams''] \<and>
   object_keys (body (fst (ai_recommendations failing_env quick_vegan_request))) =
     [''recipes'', ''reason'', ''context''] \<and>
   object_keys (modifications_fallback ''simplify'' example_recipe) =
     [''simplifiedIngredients'', ''simplifiedInstructions'', ''tips'']"
proof -
  have h1: "status (fst (ai_search failing_env pasta_request)) = 200"
    by code_simp
  have h2: "status (fst (ai_recommendations failing_env quick_vegan_request)) = 200"
    by code_simp
  have h3: "modification_schema_keys ''simplify'' =
     [''simplifiedIngredients'', ''simplifiedInstructions'', ''tips'']"
    by code_simp
  show ?thesis
    using fallback_top_level_keys [of example_recipe "''simplify''" failing_env pasta_request]
      fallback_top_level_keys [of example_recipe "''simplify''" failing_env quick_vegan_request]
      h1 h2 h3
    by simp
qed

text \<open>
  The claim as stated fails: the analysis fallback has neither
  \<^verbatim>\<open>ingredientSubstitutions\<close> nor \<^verbatim>\<open>timeValidation\<close>; and the analysis response is the
  structured data itself, so a provider whose answer is the empty object gives a 200
  without any of the keys that the fallback response has.
\<close>

theorem analysis_fallback_lacks_schema_keys:
  "''ingredientSubstitutions'' \<in> set analysis_schema_keys \<and>
   ''timeValidation'' \<in> set analysis_schema_keys \<and>
   object_keys (analysis_fallback example_recipe) =
     [''healthScore'', ''nutritionAnalysis'', ''allergens'', ''cookingDifficulty''] \<and>
   status (fst (ai_analysis failing_env analysis_request)) = 200 \<and>
   object_keys (body (fst (ai_analysis failing_env analysis_request))) =
     [''healthScore'', ''nutritionAnalysis'', ''allergens'', ''cookingDifficulty''] \<and>
   fetch empty_answer_env Claude = Response_ok None \<and>
   status (fst (ai_analysis empty_answer_env analysis_request)) = 200 \<and>
   object_keys (body (fst (ai_analysis empty_answer_env analysis_request))) = []"
  by code_simp

text \<open>
  C8. Two runs of an endpoint on the same request in one deployment (the same
  credentials, the same recipe API), in both of which every configured provider
  fails, give the same response, however the providers fail: the structured data is
  the fallback, a function of the request and of the fetched recipe alone.
\<close>

theorem fallback_is_deterministic:
  assumes "same_deployment env1 env2"
    and "exhausted e env1"
    and "exhausted e env2"
  shows "fst (handler_of e env1 searchParams) = fst (handler_of e env2 searchParams) \<and>
         fst (data_of e env1 searchParams recipeInfo) = fallback_of e searchParams recipeInfo \<and>
         fst (data_of e env2 searchParams recipeInfo) = fallback_of e searchParams recipeInfo"
proof (cases e)
  case Search
  with assms show ?thesis
    by (simp add: fst_ai_search_cong search_data_exhausted)
next
  case Recommendations
  with assms show ?thesis
    by (simp add: fst_ai_recommendations_cong recommendations_data_exhausted)
next
  case Analysis
  with assms show ?thesis
    by (simp add: fst_ai_analysis_cong analysis_data_exhausted)
next
  case Modifications
  with assms show ?thesis
    by (simp add: fst_ai_modifications_cong modifications_data_exhausted)
qed

theorem fallback_is_deterministic_witness:
  "same_deployment failing_env failing_env2 \<and> exhausted Analysis failing_env \<and>
   exhausted Analysis failing_env2 \<and>
   fetch failing_env Claude \<noteq> fetch failing_env2 Claude \<and>
   fst (handler_of Analysis failing_env analysis_request) =
     fst (handler_of Analysis failing_env2 analysis_request) \<and>
   fst (handler_of Analysis failing_env analysis_request) =
     Response 200 (analysis_fallback example_recipe)"
proof -
  have h1: "same_deployment failing_env failing_env2"
    by (simp add: same_deployment_def failing_env_def failing_env2_def)
  have h2: "exhausted Analysis failing_env"
    by code_simp
  have h3: "exhausted Analysis failing_env2"
    by code_simp
  have h4: "fetch failing_env Claude \<noteq> fetch failing_env2 Claude"
    by (simp add: failing_env_def failing_env2_def)
  have h5: "fst (handler_of Analysis failing_env analysis_request) =
     Response 200 (analysis_fallback example_recipe)"
    by code_simp
  show ?thesis
    using fallback_is_deterministic [OF h1 h2 h3, of analysis_request example_recipe] h1 h2 h3 h4 h5
    by simp
qed

text \<open>
  C9. Every 200 response of \<^verbatim>\<open>/api/ai/search\<close> carries \<^verbatim>\<open>aiOptimized: true\<close>, also when
  every configured provider failed and \<^verbatim>\<open>searchParams\<close> is the simple fallback
  \<^verbatim>\<open>{searchTerm: query.trim()}\<close>: the flag does not tell a model's result from the
  fallback.
\<close>

theorem search_success_is_ai_optimized:
  assumes "status (fst (ai_search env searchParams)) = 200"
  shows "field (body (fst (ai_search env searchParams))) ''aiOptimized'' = Some (JBool True) \<and>
         (search_exhausted env \<longrightarrow>
            field (body (fst (ai_search env searchParams))) ''searchParams'' =
              map_option search_fallback (searchParams ''query''))"
proof -
  from assms obtain q and r :: search_response where q: "searchParams ''query'' = Some q"
    and b: "fst (ai_search env searchParams) =
          Response 200
            (JObj [(''results'', JArr (case results r of None \<Rightarrow> [] | Some xs \<Rightarrow> xs)),
                   (''totalResults'', num_or_0 (totalResults r)),
                   (''offset'', num_or_0 (offset r)),
                   (''number'', num_or_0 (number r)),
                   (''aiOptimized'', JBool True),
                   (''originalQuery'', JStr (trim q)),
                   (''searchParams'', fst (search_data env q))])"
    by (rule ai_search_200_body)
  show ?thesis
    unfolding b by (simp add: q search_data_exhausted)
qed

theorem search_success_is_ai_optimized_witness:
  "status (fst (ai_search failing_env pasta_request)) = 200 \<and>
   search_exhausted failing_env \<and>
   field (body (fst (ai_search failing_env pasta_request))) ''aiOptimized'' = Some (JBool True) \<and>
   field (body (fst (ai_search failing_env pasta_request))) ''searchParams'' =
     Some (JObj [(''searchTerm'', JStr ''creamy pasta'')])"
proof -
  have h1: "status (fst (ai_search failing_env pasta_request)) = 200"
    by code_simp
  have h2: "search_exhausted failing_env"
    by code_simp
  have h3: "map_option search_fallback (pasta_request ''query'') =
     Some (JObj [(''searchTerm'', JStr ''creamy pasta'')])"
    by code_simp
  show ?thesis
    using search_success_is_ai_optimized [OF h1] h1 h2 h3 by simp
qed

text \<open>
  C10. The fallback of the analysis endpoint reports
  \<^verbatim>\<open>healthScore.score = recipeInfo.healthScore || 50\<close>: the recipe's own score when it
  is a number other than 0, and 50 when the score is 0 or missing. A true score of 0
  is replaced by the default.
\<close>

theorem analysis_fallback_score_default:
  assumes "Recipe_fetch rid \<in> set (snd (ai_analysis env searchParams))"
    and "getRecipeInformation env rid = Resolves (Some recipeInfo)"
    and "analysis_exhausted env"
  shows "get_path (body (fst (ai_analysis env searchParams))) [''healthScore'', ''score''] =
           Some (JNum (case healthScore recipeInfo of None \<Rightarrow> 50 | Some h \<Rightarrow> if h \<noteq> 0 then h else 50)) \<and>
         (healthScore recipeInfo = None \<or> healthScore recipeInfo = Some 0 \<longrightarrow>
            get_path (body (fst (ai_analysis env searchParams))) [''healthScore'', ''score''] =
              Some (JNum 50))"
proof -
  have r: "fst (ai_analysis env searchParams) = Response 200 (analysis_fallback recipeInfo)"
    using ai_analysis_fetched [OF assms(1)] assms(2,3) by (rule ai_analysis_fallback)
  show ?thesis
    unfolding r by (auto simp: analysis_fallback_def)
qed

theorem analysis_fallback_score_default_witness:
  "Recipe_fetch ''716429'' \<in> set (snd (ai_analysis failing_env analysis_request)) \<and>
   getRecipeInformation failing_env ''716429'' = Resolves (Some example_recipe) \<and>
   analysis_exhausted failing_env \<and> healthScore example_recipe = Some 0 \<and>
   get_path (body (fst (ai_analysis failing_env analysis_request))) [''healthScore'', ''score''] =
     Some (JNum 50)"
proof -
  have h1: "Recipe_fetch ''716429'' \<in> set (snd (ai_analysis failing_env analysis_request))"
    by code_simp
  have h2: "getRecipeInformation failing_env ''716429'' = Resolves (Some example_recipe)"
    by (simp add: failing_env_def)
  have h3: "analysis_exhausted failing_env"
    by code_simp
  have h4: "healthScore example_recipe = Some 0"
    by (simp add: example_recipe_def)
  show ?thesis
    using analysis_fallback_score_default [OF h1 h2 h3] h1 h2 h3 h4 by simp
qed

end
